theory Spec2Isabelle
  imports Main "HOL-Library.Char_ord" "HOL-Library.List_Lexorder"
begin

section \<open>Diagnostics\<close>

text \<open>
  The provider reports to its host through \<open>diag.Diagnostics\<close>: a list of records with a
  severity, a summary and an optional detail. A text built by \<open>fmt.Sprintf\<close> is kept as
  the format string of the source together with its arguments, so that two texts are equal
  exactly when the source formats the same arguments with the same format. The text that
  \<open>encoding/json\<close> gives for one of its errors is kept as \<open>JSONErrorText\<close>.
\<close>

datatype Severity = diag_Error | diag_Warning

datatype json_error = SyntaxError | UnmarshalTypeError

datatype message =
  Text string
  | JSONErrorText json_error
  | Sprintf string "fmtarg list"
and fmtarg =
  ArgString string
  | ArgInt int
  | ArgText message

record Diagnostic =
  Severity :: Severity
  Summary :: message
  Detail :: message

type_synonym Diagnostics = "Diagnostic list"

section \<open>Regular expressions\<close>

text \<open>
  The two patterns of \<open>gotrue/provider.go\<close> are written in the syntax of Go's \<open>regexp\<close>
  package. They use literal characters, bracket classes of ranges, the dot, grouping,
  alternation, and the repetitions \<open>*\<close>, \<open>+\<close>, \<open>?\<close>, \<open>{n}\<close> and \<open>{m,n}\<close>. Both are
  anchored by \<open>^\<close> and \<open>$\<close> (no flag is set, so these are the beginning and the end of the
  text), hence \<open>MatchString\<close> asks whether the whole text is in the pattern's language.
  The engine reads a text character by character, not byte by byte: see \<open>runes\<close> below.
  The dot matches every character but the line feed.
\<close>

datatype rx =
  Eps
  | Lit char
  | Dot
  | Class "(char \<times> char) list"
  | Seq rx rx
  | Alt rx rx
  | Star rx

definition inRange :: "char \<Rightarrow> char \<times> char \<Rightarrow> bool" where
  "inRange c r = ((of_char (fst r) :: nat) \<le> of_char c \<and> (of_char c :: nat) \<le> of_char (snd r))"

definition inClass :: "(char \<times> char) list \<Rightarrow> char \<Rightarrow> bool" where
  "inClass rs c = list_ex (inRange c) rs"

definition lineFeed :: char where
  "lineFeed = CHR 0x0A"

fun Plus :: "rx \<Rightarrow> rx" where
  "Plus r = Seq r (Star r)"

fun Opt :: "rx \<Rightarrow> rx" where
  "Opt r = Alt r Eps"

fun Times :: "nat \<Rightarrow> rx \<Rightarrow> rx" where
  "Times 0 r = Eps"
| "Times (Suc n) r = Seq r (Times n r)"

fun AtMost :: "nat \<Rightarrow> rx \<Rightarrow> rx" where
  "AtMost 0 r = Eps"
| "AtMost (Suc n) r = Opt (Seq r (AtMost n r))"

fun Between :: "nat \<Rightarrow> nat \<Rightarrow> rx \<Rightarrow> rx" where
  "Between m n r = Seq (Times m r) (AtMost (n - m) r)"

fun Word :: "string \<Rightarrow> rx" where
  "Word [] = Eps"
| "Word (c # cs) = Seq (Lit c) (Word cs)"

fun nullable :: "rx \<Rightarrow> bool" where
  "nullable Eps = True"
| "nullable (Lit c) = False"
| "nullable Dot = False"
| "nullable (Class rs) = False"
| "nullable (Seq r s) = (nullable r \<and> nullable s)"
| "nullable (Alt r s) = (nullable r \<or> nullable s)"
| "nullable (Star r) = True"

text \<open>
  \<open>step r c\<close> is \<open>None\<close> when no text of \<open>r\<close> starts with \<open>c\<close>, and otherwise the
  pattern of what may follow \<open>c\<close>.
\<close>

fun seqo :: "rx option \<Rightarrow> rx \<Rightarrow> rx option" where
  "seqo None s = None"
| "seqo (Some r) s = Some (Seq r s)"

fun alto :: "rx option \<Rightarrow> rx option \<Rightarrow> rx option" where
  "alto None b = b"
| "alto (Some r) None = Some r"
| "alto (Some r) (Some s) = Some (Alt r s)"

fun step :: "rx \<Rightarrow> char \<Rightarrow> rx option" where
  "step Eps c = None"
| "step (Lit d) c = (if c = d then Some Eps else None)"
| "step Dot c = (if c = lineFeed then None else Some Eps)"
| "step (Class rs) c = (if inClass rs c then Some Eps else None)"
| "step (Seq r s) c =
     (if nullable r then alto (seqo (step r c) s) (step s c) else seqo (step r c) s)"
| "step (Alt r s) c = alto (step r c) (step s c)"
| "step (Star r) c = seqo (step r c) (Star r)"

fun run :: "rx option \<Rightarrow> string \<Rightarrow> bool" where
  "run None cs = False"
| "run (Some r) [] = nullable r"
| "run (Some r) (c # cs) = run (step r c) cs"

definition matches :: "rx \<Rightarrow> string \<Rightarrow> bool" where
  "matches r cs = run (Some r) cs"

text \<open>
  A Go string is a sequence of bytes; the engine decodes it as UTF-8. A well-formed sequence
  of several bytes is one character, and every other byte is one character too (the engine
  reads it as U+FFFD). The patterns of the program tell ASCII characters only from each
  other, so \<open>runes\<close> keeps a character of several bytes as its first byte, which is not
  ASCII.
\<close>

definition byteIn :: "nat \<Rightarrow> nat \<Rightarrow> string \<Rightarrow> bool" where
  "byteIn lo hi s = (case s of [] \<Rightarrow> False | c # cs \<Rightarrow> lo \<le> (of_char c :: nat) \<and> (of_char c :: nat) \<le> hi)"

text \<open>
  The number of bytes of the well-formed UTF-8 sequence that begins the text, 0 when there is
  none (the ranges are those of \<open>utf8.DecodeRune\<close>).
\<close>

definition runeLen :: "string \<Rightarrow> nat" where
  "runeLen s =
     (let tail2 = byteIn 0x80 0xBF (drop 2 s); tail3 = byteIn 0x80 0xBF (drop 3 s) in
      if byteIn 0x00 0x7F s then 1
      else if byteIn 0xC2 0xDF s then (if byteIn 0x80 0xBF (drop 1 s) then 2 else 0)
      else if byteIn 0xE0 0xE0 s then (if byteIn 0xA0 0xBF (drop 1 s) \<and> tail2 then 3 else 0)
      else if byteIn 0xED 0xED s then (if byteIn 0x80 0x9F (drop 1 s) \<and> tail2 then 3 else 0)
      else if byteIn 0xE1 0xEF s then (if byteIn 0x80 0xBF (drop 1 s) \<and> tail2 then 3 else 0)
      else if byteIn 0xF0 0xF0 s then (if byteIn 0x90 0xBF (drop 1 s) \<and> tail2 \<and> tail3 then 4 else 0)
      else if byteIn 0xF1 0xF3 s then (if byteIn 0x80 0xBF (drop 1 s) \<and> tail2 \<and> tail3 then 4 else 0)
      else if byteIn 0xF4 0xF4 s then (if byteIn 0x80 0x8F (drop 1 s) \<and> tail2 \<and> tail3 then 4 else 0)
      else 0)"

fun runes :: "string \<Rightarrow> string" where
  "runes [] = []"
| "runes (c # cs) = c # runes (drop (runeLen (c # cs) - 1) cs)"

definition MatchString :: "rx \<Rightarrow> string \<Rightarrow> bool" where
  "MatchString r s = matches r (runes s)"

subsection \<open>The language of a pattern\<close>

inductive_set star :: "string set \<Rightarrow> string set" for A :: "string set" where
  star_nil: "[] \<in> star A"
| star_app: "u \<in> A \<Longrightarrow> v \<in> star A \<Longrightarrow> u @ v \<in> star A"

fun lang :: "rx \<Rightarrow> string set" where
  "lang Eps = {[]}"
| "lang (Lit d) = {[d]}"
| "lang Dot = {[c] | c. c \<noteq> lineFeed}"
| "lang (Class rs) = {[c] | c. inClass rs c}"
| "lang (Seq r s) = {u @ v | u v. u \<in> lang r \<and> v \<in> lang s}"
| "lang (Alt r s) = lang r \<union> lang s"
| "lang (Star r) = star (lang r)"

fun lango :: "rx option \<Rightarrow> string set" where
  "lango None = {}"
| "lango (Some r) = lang r"

section \<open>The domains field\<close>

text \<open>
  \<open>domainPattern = regexp.MustCompile("^[a-z0-9-]+(.[a-z0-9-]+)*$")\<close>. The dot of the
  source is not escaped.
\<close>

definition domainClass :: "(char \<times> char) list" where
  "domainClass = [(CHR ''a'', CHR ''z''), (CHR ''0'', CHR ''9''), (CHR ''-'', CHR ''-'')]"

definition domainPattern :: rx where
  "domainPattern = Seq (Plus (Class domainClass)) (Star (Seq Dot (Plus (Class domainClass))))"

text \<open>The \<open>ValidateDiagFunc\<close> of the elements of the \<open>domains\<close> set.\<close>

definition domainsValidateDiagFunc :: "string \<Rightarrow> Diagnostics" where
  "domainsValidateDiagFunc v =
     (if \<not> MatchString domainPattern v
      then [\<lparr>Severity = diag_Error,
             Summary = Sprintf ''Value %q is not a valid domain'' [ArgString v],
             Detail = Text ''''\<rparr>]
      else [])"

text \<open>
  The host calls the element validator once for each element of the set and collects what
  the calls return.
\<close>

definition validateDomains :: "string list \<Rightarrow> Diagnostics" where
  "validateDomains vs = concat (map domainsValidateDiagFunc vs)"

text \<open>
  The pattern as the specification words it: segments of lower-case letters, digits and
  hyphens, separated by single dots, no leading or trailing dot, at least one segment.
\<close>

fun splitDots :: "string \<Rightarrow> string list" where
  "splitDots [] = [[]]"
| "splitDots (c # cs) =
     (if c = CHR ''.'' then [] # splitDots cs
      else (case splitDots cs of [] \<Rightarrow> [[c]] | seg # segs \<Rightarrow> (c # seg) # segs))"

definition segmentOk :: "string \<Rightarrow> bool" where
  "segmentOk seg = (seg \<noteq> [] \<and> list_all (inClass domainClass) seg)"

definition specDomain :: "string \<Rightarrow> bool" where
  "specDomain s = list_all segmentOk (splitDots s)"

text \<open>
  Auxiliary notions for the properties of the pattern: a character of the bracket class,
  two neighbouring characters outside the class, the texts that the validator surely
  rejects (by their characters, as \<open>runes\<close> gives them), and the two-state acceptor of the
  pattern (\<open>accStart\<close>: a class character must come next; \<open>accInside\<close>: the text
  may end here).
\<close>

definition domainChar :: "char \<Rightarrow> bool" where
  "domainChar c = inClass domainClass c"

fun adjacentOutside :: "string \<Rightarrow> bool" where
  "adjacentOutside (c # d # cs) = ((\<not> domainChar c \<and> \<not> domainChar d) \<or> adjacentOutside (d # cs))"
| "adjacentOutside cs = False"

definition surelyInvalid :: "string \<Rightarrow> bool" where
  "surelyInvalid s =
     (s = [] \<or> \<not> domainChar (hd (runes s)) \<or> \<not> domainChar (last (runes s))
        \<or> adjacentOutside (runes s) \<or> lineFeed \<in> set (runes s))"

fun accStart :: "string \<Rightarrow> bool" and accInside :: "string \<Rightarrow> bool" where
  "accStart [] = False"
| "accStart (c # cs) = (domainChar c \<and> accInside cs)"
| "accInside [] = True"
| "accInside (c # cs) = (if domainChar c then accInside cs else c \<noteq> lineFeed \<and> accStart cs)"

definition seps :: "string set" where
  "seps = star {d # w | d w. d \<noteq> lineFeed \<and> w \<noteq> [] \<and> list_all domainChar w}"

section \<open>JSON texts\<close>

text \<open>
  The provider and the client decode JSON with \<open>json.Unmarshal\<close> of Go's library. What they
  do with a text depends on what the library makes of it, so the model has a reader of
  JSON texts: the grammar of RFC 8259 as the library's scanner accepts it (any value at the
  top, blanks around the tokens, a nesting depth of at most 10000), and string literals
  decoded as the library decodes them (the escapes, surrogate pairs, and U+FFFD in place of
  every byte that is not part of well-formed UTF-8). A number is kept as its literal.
\<close>

datatype json =
  JNull
  | JBool bool
  | JNumber string
  | JString string
  | JArray "json list"
  | JObject "(string \<times> json) list"

datatype token =
  TLBrace | TRBrace | TLBracket | TRBracket | TColon | TComma
  | TString string | TNumber string | TTrue | TFalse | TNull

definition isSpace :: "char \<Rightarrow> bool" where
  "isSpace c = (c = CHR 0x20 \<or> c = CHR 0x09 \<or> c = CHR 0x0A \<or> c = CHR 0x0D)"

definition digits :: rx where
  "digits = Class [(CHR ''0'', CHR ''9'')]"

definition numberPattern :: rx where
  "numberPattern =
     Seq (Opt (Lit (CHR ''-'')))
       (Seq (Alt (Lit (CHR ''0'')) (Seq (Class [(CHR ''1'', CHR ''9'')]) (Star digits)))
         (Seq (Opt (Seq (Lit (CHR ''.'')) (Plus digits)))
           (Opt (Seq (Class [(CHR ''e'', CHR ''e''), (CHR ''E'', CHR ''E'')])
                  (Seq (Opt (Class [(CHR ''+'', CHR ''+''), (CHR ''-'', CHR ''-'')])) (Plus digits))))))"

definition numberChar :: "char \<Rightarrow> bool" where
  "numberChar c =
     inClass [(CHR ''0'', CHR ''9''), (CHR ''+'', CHR ''+''), (CHR ''-'', CHR ''-''),
              (CHR ''.'', CHR ''.''), (CHR ''e'', CHR ''e''), (CHR ''E'', CHR ''E'')] c"

definition hexDigit :: "char \<Rightarrow> nat option" where
  "hexDigit c =
     (if inRange c (CHR ''0'', CHR ''9'') then Some (of_char c - 48)
      else if inRange c (CHR ''a'', CHR ''f'') then Some (of_char c - 87)
      else if inRange c (CHR ''A'', CHR ''F'') then Some (of_char c - 55)
      else None)"

definition getu4 :: "string \<Rightarrow> nat option" where
  "getu4 s =
     (case s of
        b # u # h1 # h2 # h3 # h4 # rest \<Rightarrow>
          (if b = CHR 0x5C \<and> u = CHR ''u'' then
             (case (hexDigit h1, hexDigit h2, hexDigit h3, hexDigit h4) of
                (Some a, Some b, Some c, Some d) \<Rightarrow> Some (((a * 16 + b) * 16 + c) * 16 + d)
              | _ \<Rightarrow> None)
           else None)
      | _ \<Rightarrow> None)"

fun scanString :: "string \<Rightarrow> (string \<times> string) option" where
  "scanString [] = None"
| "scanString (c # cs) =
     (if c = CHR 0x22 then Some ([], cs)
      else if c = CHR 0x5C then
        (case cs of
           [] \<Rightarrow> None
         | e # cs' \<Rightarrow>
             (if e \<in> set [CHR ''b'', CHR ''f'', CHR ''n'', CHR ''r'', CHR ''t'', CHR 0x5C, CHR ''/'', CHR 0x22]
              then map_option (\<lambda>(raw, rest). (c # e # raw, rest)) (scanString cs')
              else if getu4 (c # cs) \<noteq> None
              then map_option (\<lambda>(raw, rest). (take 6 (c # cs) @ raw, rest)) (scanString (drop 4 cs'))
              else None))
      else if (of_char c :: nat) < 0x20 then None
      else map_option (\<lambda>(raw, rest). (c # raw, rest)) (scanString cs))"


definition replacementChar :: string where
  "replacementChar = [CHR 0xEF, CHR 0xBF, CHR 0xBD]"

definition EncodeRune :: "nat \<Rightarrow> string" where
  "EncodeRune r =
     (if r < 0x80 then [char_of r]
      else if r < 0x800 then [char_of (0xC0 + r div 64), char_of (0x80 + r mod 64)]
      else if r < 0x10000 then
        [char_of (0xE0 + r div 4096), char_of (0x80 + (r div 64) mod 64), char_of (0x80 + r mod 64)]
      else
        [char_of (0xF0 + r div 262144), char_of (0x80 + (r div 4096) mod 64),
         char_of (0x80 + (r div 64) mod 64), char_of (0x80 + r mod 64)])"

definition escapeChar :: "char \<Rightarrow> char" where
  "escapeChar e =
     (if e = CHR ''b'' then CHR 0x08 else if e = CHR ''f'' then CHR 0x0C
      else if e = CHR ''n'' then CHR 0x0A else if e = CHR ''r'' then CHR 0x0D
      else if e = CHR ''t'' then CHR 0x09 else e)"

definition DecodeRune16 :: "nat \<Rightarrow> nat option \<Rightarrow> nat option" where
  "DecodeRune16 r1 r2 =
     (case r2 of
        None \<Rightarrow> None
      | Some r \<Rightarrow>
          (if 0xD800 \<le> r1 \<and> r1 < 0xDC00 \<and> 0xDC00 \<le> r \<and> r < 0xE000
           then Some ((r1 - 0xD800) * 1024 + (r - 0xDC00) + 0x10000)
           else None))"

text \<open>
  \<open>unquote k raw\<close> decodes the characters between the quotes of a string literal that
  \<open>scanString\<close> has accepted; \<open>k\<close> counts the bytes of a checked UTF-8 sequence that are
  still to be copied.
\<close>

fun unquote :: "nat \<Rightarrow> string \<Rightarrow> string" where
  "unquote k [] = []"
| "unquote k (c # cs) =
     (if 0 < k then c # unquote (k - 1) cs
      else if c = CHR 0x5C then
        (case cs of
           [] \<Rightarrow> []
         | e # cs' \<Rightarrow>
             (if e = CHR ''u'' then
                (case getu4 (c # cs) of
                   None \<Rightarrow> []
                 | Some rr \<Rightarrow>
                     (if 0xD800 \<le> rr \<and> rr < 0xE000 then
                        (case DecodeRune16 rr (getu4 (drop 4 cs')) of
                           Some dec \<Rightarrow> EncodeRune dec @ unquote 0 (drop 10 cs')
                         | None \<Rightarrow> replacementChar @ unquote 0 (drop 4 cs'))
                      else EncodeRune rr @ unquote 0 (drop 4 cs')))
              else escapeChar e # unquote 0 cs'))
      else if runeLen (c # cs) = 0 then replacementChar @ unquote 0 cs
      else c # unquote (runeLen (c # cs) - 1) cs)"

lemma scanString_shorter: "scanString s = Some (raw, rest) \<Longrightarrow> length rest < length s"
proof (induction s arbitrary: raw rest rule: scanString.induct)
  case 1
  then show ?case by simp
next
  case (2 c cs)
  show ?case
  proof (cases "c = CHR 0x22")
    case True
    with "2.prems" show ?thesis by simp
  next
    case notq: False
    show ?thesis
    proof (cases "c = CHR 0x5C")
      case True
      show ?thesis
      proof (cases cs)
        case Nil
        with "2.prems" True notq show ?thesis by simp
      next
        case (Cons e cs')
        show ?thesis
          using "2.prems" "2.IH"(1,2) True notq Cons
          by (fastforce split: if_splits)
      qed
    next
      case False
      then show ?thesis
        using "2.prems" "2.IH"(3) notq by (fastforce split: if_splits)
    qed
  qed
qed

function lex :: "string \<Rightarrow> token list option" where
  "lex [] = Some []"
| "lex (c # cs) =
     (if isSpace c then lex cs
      else if c = CHR ''{'' then map_option ((#) TLBrace) (lex cs)
      else if c = CHR ''}'' then map_option ((#) TRBrace) (lex cs)
      else if c = CHR ''['' then map_option ((#) TLBracket) (lex cs)
      else if c = CHR '']'' then map_option ((#) TRBracket) (lex cs)
      else if c = CHR '':'' then map_option ((#) TColon) (lex cs)
      else if c = CHR '','' then map_option ((#) TComma) (lex cs)
      else if c = CHR 0x22 then
        (case scanString cs of
           None \<Rightarrow> None
         | Some (raw, rest) \<Rightarrow> map_option ((#) (TString (unquote 0 raw))) (lex rest))
      else if c = CHR ''-'' \<or> inRange c (CHR ''0'', CHR ''9'') then
        (if matches numberPattern (c # takeWhile numberChar cs)
         then map_option ((#) (TNumber (c # takeWhile numberChar cs))) (lex (dropWhile numberChar cs))
         else None)
      else if take 4 (c # cs) = ''true'' then map_option ((#) TTrue) (lex (drop 3 cs))
      else if take 5 (c # cs) = ''false'' then map_option ((#) TFalse) (lex (drop 4 cs))
      else if take 4 (c # cs) = ''null'' then map_option ((#) TNull) (lex (drop 3 cs))
      else None)"
  by pat_completeness auto
termination
proof (relation "measure length")
  fix c cs x raw rest
  assume "scanString cs = Some x" "(raw, rest) = x"
  then show "(rest, c # cs) \<in> measure length"
    using scanString_shorter [of cs raw rest] by simp
qed (auto simp: length_dropWhile_le less_Suc_eq_le)

text \<open>
  The parser reads the tokens from left to right and keeps the open arrays and objects on a
  stack, innermost first, each with what it holds so far (latest first). An object frame
  also holds the key whose value is being read.
\<close>

datatype frame = InArray "json list" | InObject "(string \<times> json) list" "string option"

datatype expect = Value | ValueOrEnd | KeyOrEnd | Key | Colon | CommaOrEnd | Finished

type_synonym pstate = "expect \<times> frame list \<times> json option"

definition maxNestingDepth :: nat where
  "maxNestingDepth = 10000"

fun put :: "json \<Rightarrow> frame list \<Rightarrow> pstate option" where
  "put v [] = Some (Finished, [], Some v)"
| "put v (InArray vs # st) = Some (CommaOrEnd, InArray (v # vs) # st, None)"
| "put v (InObject ms (Some k) # st) = Some (CommaOrEnd, InObject ((k, v) # ms) None # st, None)"
| "put v (InObject ms None # st) = None"

fun scalar :: "token \<Rightarrow> json option" where
  "scalar (TString s) = Some (JString s)"
| "scalar (TNumber n) = Some (JNumber n)"
| "scalar TTrue = Some (JBool True)"
| "scalar TFalse = Some (JBool False)"
| "scalar TNull = Some JNull"
| "scalar t = None"

definition beginValue :: "token \<Rightarrow> frame list \<Rightarrow> pstate option" where
  "beginValue t st =
     (case scalar t of
        Some v \<Rightarrow> put v st
      | None \<Rightarrow>
          (if t = TLBracket \<and> length st < maxNestingDepth then Some (ValueOrEnd, InArray [] # st, None)
           else if t = TLBrace \<and> length st < maxNestingDepth then Some (KeyOrEnd, InObject [] None # st, None)
           else None))"

definition endArray :: "frame list \<Rightarrow> pstate option" where
  "endArray st = (case st of InArray vs # st' \<Rightarrow> put (JArray (rev vs)) st' | _ \<Rightarrow> None)"

definition endObject :: "frame list \<Rightarrow> pstate option" where
  "endObject st = (case st of InObject ms None # st' \<Rightarrow> put (JObject (rev ms)) st' | _ \<Rightarrow> None)"

definition beginKey :: "token \<Rightarrow> frame list \<Rightarrow> pstate option" where
  "beginKey t st =
     (case (t, st) of
        (TString k, InObject ms None # st') \<Rightarrow> Some (Colon, InObject ms (Some k) # st', None)
      | _ \<Rightarrow> None)"

fun pstep :: "pstate \<Rightarrow> token \<Rightarrow> pstate option" where
  "pstep (Value, st, r) t = beginValue t st"
| "pstep (ValueOrEnd, st, r) t = (if t = TRBracket then endArray st else beginValue t st)"
| "pstep (KeyOrEnd, st, r) t = (if t = TRBrace then endObject st else beginKey t st)"
| "pstep (Key, st, r) t = beginKey t st"
| "pstep (Colon, st, r) t = (if t = TColon then Some (Value, st, None) else None)"
| "pstep (CommaOrEnd, st, r) t =
     (if t = TComma then
        (case st of
           InArray vs # st' \<Rightarrow> Some (Value, st, None)
         | InObject ms None # st' \<Rightarrow> Some (Key, st, None)
         | _ \<Rightarrow> None)
      else if t = TRBracket then endArray st
      else if t = TRBrace then endObject st
      else None)"
| "pstep (Finished, st, r) t = None"

fun psteps :: "pstate \<Rightarrow> token list \<Rightarrow> pstate option" where
  "psteps s [] = Some s"
| "psteps s (t # ts) = (case pstep s t of None \<Rightarrow> None | Some s' \<Rightarrow> psteps s' ts)"

definition parseJSON :: "string \<Rightarrow> json option" where
  "parseJSON s =
     (case lex s of
        None \<Rightarrow> None
      | Some ts \<Rightarrow>
          (case psteps (Value, [], None) ts of
             Some (Finished, st, Some v) \<Rightarrow> Some v
           | _ \<Rightarrow> None))"

section \<open>The admin client: data\<close>

record Attribute =
  Name :: string
  Names :: "string list"
  Default :: "json option"

text \<open>
  \<open>Keys\<close> is a Go map. It is kept as the list of its entries, one for each key; the order
  of the list is the order in which a \<open>range\<close> loop visits them, which Go leaves open.
\<close>

record AttributeMapping =
  Keys :: "(string \<times> Attribute) list"

type_synonym Time = int

text \<open>
  \<open>Domains\<close> of a request is declared a pointer to a slice by the client and used as a
  slice by the provider; in both readings \<open>None\<close> is the nil value, which the encoder
  omits, and \<open>Some ds\<close> a list that is there.
\<close>

record IdentityProviderRequest =
  ID :: string
  ResourceID :: string
  Type :: string
  Domains :: "string list option"
  MetadataXML :: string
  MetadataURL :: string
  AttributeMapping :: AttributeMapping
  CreatedAt :: Time
  UpdatedAt :: Time

record SAML =
  MetadataXML :: string
  MetadataURL :: string
  AttributeMapping :: AttributeMapping

record Domain =
  Domain :: string

record IdentityProviderResponse =
  ID :: string
  ResourceID :: string
  Domains :: "Domain list"
  SAML :: SAML
  CreatedAt :: Time
  UpdatedAt :: Time

record Error =
  Op :: message
  Expected :: int
  Code :: int
  Message :: string
  ErrorID :: string

text \<open>
  A Go \<open>error\<close> value: an error of the transport or of a library, known by its text only; an
  error of \<open>encoding/json\<close>; or the client's own \<open>*Error\<close>. \<open>Panic\<close> stands for a run-time
  panic, which ends the call without any return value.
\<close>

datatype error =
  Opaque string
  | JSON json_error
  | API Error
  | Panic string

definition Error_Error :: "Error \<Rightarrow> message" where
  "Error_Error e =
     Sprintf ''adminclient: expected HTTP %v when %s, got HTTP %v: %s''
       [ArgInt (Expected e), ArgText (Op e), ArgInt (Code e), ArgString (Message e)]"

fun error_Error :: "error \<Rightarrow> message" where
  "error_Error (Opaque s) = Text s"
| "error_Error (JSON e) = JSONErrorText e"
| "error_Error (API e) = Error_Error e"
| "error_Error (Panic s) = Text s"

definition FromErr :: "error \<Rightarrow> Diagnostics" where
  "FromErr err = [\<lparr>Severity = diag_Error, Summary = error_Error err, Detail = Text ''''\<rparr>]"

section \<open>Decoding JSON into the client's structs\<close>

text \<open>
  \<open>json.Unmarshal\<close> first checks the whole text; a text that is not JSON changes nothing and
  gives a syntax error. It then stores the members of an object into the fields whose tag
  equals the member's key up to case. A value of the wrong kind for its field is skipped:
  the first such mismatch is remembered and returned at the end, the other members are still
  stored. \<open>null\<close> leaves a string or an integer as it is and empties a slice, a map or an
  interface value. An array is decoded into a slice from its first element on; where an
  object repeats the member of a slice, the library decodes the later array over the
  elements that the earlier one left, which shows only where the later array holds
  \<open>null\<close>; the model decodes the later array alone.
\<close>

fun foldName :: "string \<Rightarrow> string" where
  "foldName [] = []"
| "foldName (c # cs) =
     (if inRange c (CHR ''a'', CHR ''z'') then char_of ((of_char c :: nat) - 32) # foldName cs
      else if c = CHR 0xC5 \<and> take 1 cs = [CHR 0xBF] then CHR ''S'' # foldName (drop 1 cs)
      else if c = CHR 0xE2 \<and> take 2 cs = [CHR 0x84, CHR 0xAA] then CHR ''K'' # foldName (drop 2 cs)
      else c # foldName cs)"

definition digitsValue :: "string \<Rightarrow> int" where
  "digitsValue ds = foldl (\<lambda>a c. 10 * a + (int (of_char c) - 48)) 0 ds"

definition ParseInt :: "string \<Rightarrow> int option" where
  "ParseInt lit =
     (let neg = (take 1 lit = ''-'');
          ds = (if neg then drop 1 lit else lit);
          n = (if neg then - digitsValue ds else digitsValue ds)
      in if ds \<noteq> [] \<and> list_all (\<lambda>c. inRange c (CHR ''0'', CHR ''9'')) ds
            \<and> - (2 ^ 63) \<le> n \<and> n < 2 ^ 63
         then Some n else None)"

fun storeInt :: "json \<Rightarrow> int \<Rightarrow> int \<times> bool" where
  "storeInt JNull old = (old, True)"
| "storeInt (JNumber lit) old = (case ParseInt lit of Some n \<Rightarrow> (n, True) | None \<Rightarrow> (old, False))"
| "storeInt v old = (old, False)"

fun storeString :: "json \<Rightarrow> string \<Rightarrow> string \<times> bool" where
  "storeString JNull old = (old, True)"
| "storeString (JString s) old = (s, True)"
| "storeString v old = (old, False)"

definition storeErrorMember :: "Error \<times> bool \<Rightarrow> string \<times> json \<Rightarrow> Error \<times> bool" where
  "storeErrorMember eo m =
     (let e = fst eo; ok = snd eo; k = foldName (fst m); v = snd m in
      if k = ''CODE'' then (e\<lparr>Code := fst (storeInt v (Code e))\<rparr>, ok \<and> snd (storeInt v (Code e)))
      else if k = ''MSG'' then
        (e\<lparr>Message := fst (storeString v (Message e))\<rparr>, ok \<and> snd (storeString v (Message e)))
      else if k = ''ERROR_ID'' then
        (e\<lparr>ErrorID := fst (storeString v (ErrorID e))\<rparr>, ok \<and> snd (storeString v (ErrorID e)))
      else (e, ok))"

definition Unmarshal_Error :: "string \<Rightarrow> Error \<Rightarrow> Error \<times> json_error option" where
  "Unmarshal_Error body e =
     (case parseJSON body of
        None \<Rightarrow> (e, Some SyntaxError)
      | Some JNull \<Rightarrow> (e, None)
      | Some (JObject ms) \<Rightarrow>
          (let r = foldl storeErrorMember (e, True) ms
           in (fst r, if snd r then None else Some UnmarshalTypeError))
      | Some v \<Rightarrow> (e, Some UnmarshalTypeError))"

fun nameElement :: "json \<Rightarrow> string option" where
  "nameElement (JString s) = Some s"
| "nameElement JNull = Some ''''"
| "nameElement v = None"

fun those_names :: "json list \<Rightarrow> string list option" where
  "those_names [] = Some []"
| "those_names (v # vs) =
     (case nameElement v of
        None \<Rightarrow> None
      | Some s \<Rightarrow> (case those_names vs of None \<Rightarrow> None | Some ss \<Rightarrow> Some (s # ss)))"

fun storeNames :: "json \<Rightarrow> string list option" where
  "storeNames JNull = Some []"
| "storeNames (JArray vs) = those_names vs"
| "storeNames v = None"

definition storeAttributeMember :: "Attribute option \<Rightarrow> string \<times> json \<Rightarrow> Attribute option" where
  "storeAttributeMember ao m =
     (case ao of
        None \<Rightarrow> None
      | Some a \<Rightarrow>
          (let k = foldName (fst m); v = snd m in
           if k = ''NAME'' then
             (if snd (storeString v (Name a)) then Some (a\<lparr>Name := fst (storeString v (Name a))\<rparr>) else None)
           else if k = ''NAMES'' then map_option (\<lambda>ns. a\<lparr>Names := ns\<rparr>) (storeNames v)
           else if k = ''DEFAULT'' then Some (a\<lparr>Default := (if v = JNull then None else Some v)\<rparr>)
           else Some a))"

definition zeroAttribute :: Attribute where
  "zeroAttribute = \<lparr>Name = '''', Names = [], Default = None\<rparr>"

fun storeAttribute :: "json \<Rightarrow> Attribute option" where
  "storeAttribute JNull = Some zeroAttribute"
| "storeAttribute (JObject ms) = foldl storeAttributeMember (Some zeroAttribute) ms"
| "storeAttribute v = None"

fun mapPut :: "string \<Rightarrow> 'v \<Rightarrow> (string \<times> 'v) list \<Rightarrow> (string \<times> 'v) list" where
  "mapPut k v [] = [(k, v)]"
| "mapPut k v (e # es) = (if fst e = k then (k, v) # es else e # mapPut k v es)"

definition storeKeysMember ::
  "(string \<times> Attribute) list option \<Rightarrow> string \<times> json \<Rightarrow> (string \<times> Attribute) list option" where
  "storeKeysMember mo m =
     (case mo of
        None \<Rightarrow> None
      | Some es \<Rightarrow> map_option (\<lambda>a. mapPut (fst m) a es) (storeAttribute (snd m)))"

fun storeKeys :: "json \<Rightarrow> (string \<times> Attribute) list \<Rightarrow> (string \<times> Attribute) list option" where
  "storeKeys JNull old = Some []"
| "storeKeys (JObject ms) old = foldl storeKeysMember (Some old) ms"
| "storeKeys v old = None"

definition storeMappingMember :: "AttributeMapping option \<Rightarrow> string \<times> json \<Rightarrow> AttributeMapping option" where
  "storeMappingMember mo m =
     (case mo of
        None \<Rightarrow> None
      | Some am \<Rightarrow>
          (if foldName (fst m) = ''KEYS''
           then map_option (\<lambda>es. am\<lparr>Keys := es\<rparr>) (storeKeys (snd m) (Keys am))
           else Some am))"

definition Unmarshal_AttributeMapping :: "string \<Rightarrow> AttributeMapping \<Rightarrow> json_error + AttributeMapping" where
  "Unmarshal_AttributeMapping s am =
     (case parseJSON s of
        None \<Rightarrow> Inl SyntaxError
      | Some JNull \<Rightarrow> Inr am
      | Some (JObject ms) \<Rightarrow>
          (case foldl storeMappingMember (Some am) ms of
             None \<Rightarrow> Inl UnmarshalTypeError
           | Some am' \<Rightarrow> Inr am')
      | Some v \<Rightarrow> Inl UnmarshalTypeError)"

definition zeroAttributeMapping :: AttributeMapping where
  "zeroAttributeMapping = \<lparr>Keys = []\<rparr>"

section \<open>The admin client: operations\<close>

text \<open>
  An \<open>http.Header\<close> is a Go map from header names to lists of values, and a variable of
  that type refers to the map: two variables may refer to one map, and \<open>Add\<close> through
  either changes it for both. The maps therefore live in a store, a list of their contents;
  a reference is an index into the list (\<open>None\<close> is the nil map), and a new map is put at
  the end.
\<close>

type_synonym Header = "string \<Rightarrow> string list option"

type_synonym store = "Header list"

type_synonym ref = "nat option"

record URL =
  Scheme :: string
  Host :: string
  Path :: string

record Request =
  Method :: string
  URL :: string
  Header :: ref
  Body :: "string option"

text \<open>
  The body of a response is what reading it to its end gives: its text, or the error of
  the read.
\<close>

record Response =
  StatusCode :: int
  Body :: "error + string"

text \<open>
  An \<open>HTTPClient\<close> gets the request and the contents of the request's header map. It
  answers with a response or an error, and with the contents of the request's header map
  after the call (a transport may add to the headers of the request it is given).
\<close>

type_synonym HTTPClient = "Request \<Rightarrow> Header \<Rightarrow> (error + Response) \<times> Header"

record client =
  HTTPClient :: "HTTPClient option"
  BaseURL :: URL
  Headers :: ref

text \<open>
  The library functions that the client calls and whose results the model does not compute:
  \<open>url.URL.String\<close>; \<open>http.NewRequestWithContext\<close>, by the error it may return for a method,
  an address and a body; the encoder of a request and the decoder of a response;
  \<open>http.DefaultClient\<close>.
\<close>

record library =
  String :: "URL \<Rightarrow> string"
  NewRequestWithContext :: "string \<Rightarrow> string \<Rightarrow> string option \<Rightarrow> error option"
  Encode :: "IdentityProviderRequest \<Rightarrow> error + string"
  Decode :: "string \<Rightarrow> error + IdentityProviderResponse"
  DefaultClient :: HTTPClient

definition Clone :: "ref \<Rightarrow> store \<Rightarrow> ref \<times> store" where
  "Clone r st = (case r of None \<Rightarrow> (None, st) | Some a \<Rightarrow> (Some (length st), st @ [st ! a]))"

definition make_Header :: "store \<Rightarrow> ref \<times> store" where
  "make_Header st = (Some (length st), st @ [Map.empty])"

definition Header_Add :: "string \<Rightarrow> string \<Rightarrow> Header \<Rightarrow> Header" where
  "Header_Add k v h = h(k \<mapsto> (case h k of None \<Rightarrow> [] | Some vs \<Rightarrow> vs) @ [v])"

definition TrimSuffix :: "string \<Rightarrow> string \<Rightarrow> string" where
  "TrimSuffix s suffix =
     (if length suffix \<le> length s \<and> drop (length s - length suffix) s = suffix
      then take (length s - length suffix) s else s)"

type_synonym Option = "client \<times> store \<Rightarrow> client \<times> store"

definition WithHTTPClient :: "HTTPClient option \<Rightarrow> Option" where
  "WithHTTPClient httpClient = (\<lambda>(c, st). (c\<lparr>HTTPClient := httpClient\<rparr>, st))"

definition WithBaseURL :: "URL \<Rightarrow> Option" where
  "WithBaseURL url = (\<lambda>(c, st). (c\<lparr>BaseURL := url\<lparr>Path := TrimSuffix (Path url) ''/''\<rparr>\<rparr>, st))"

definition WithHeaders :: "ref \<Rightarrow> Option" where
  "WithHeaders headers = (\<lambda>(c, st). (c\<lparr>Headers := fst (Clone headers st)\<rparr>, snd (Clone headers st)))"

definition zeroClient :: client where
  "zeroClient = \<lparr>HTTPClient = None, BaseURL = \<lparr>Scheme = '''', Host = '''', Path = ''''\<rparr>, Headers = None\<rparr>"

text \<open>\<open>New\<close> returns its client together with an error that is always nil.\<close>

definition New :: "library \<Rightarrow> Option list \<Rightarrow> store \<Rightarrow> client \<times> store" where
  "New lib options st =
     (let (c1, st1) = foldl (\<lambda>s option. option s) (zeroClient, st) options;
          c2 = (if HTTPClient c1 = None then c1\<lparr>HTTPClient := Some (DefaultClient lib)\<rparr> else c1)
      in if Headers c2 = None
         then (c2\<lparr>Headers := fst (make_Header st1)\<rparr>, snd (make_Header st1))
         else (c2, st1))"

definition parseError :: "Response \<Rightarrow> int \<Rightarrow> message \<Rightarrow> error" where
  "parseError res expected op =
     (case Response.Body res of
        Inl err \<Rightarrow> err
      | Inr body \<Rightarrow>
          (let errorObject = \<lparr>Op = op, Expected = expected, Code = StatusCode res,
                              Message = '''', ErrorID = ''''\<rparr>;
               r = Unmarshal_Error body errorObject
           in API (if snd r \<noteq> None then (fst r)\<lparr>Message := body\<rparr> else fst r)))"

text \<open>
  \<open>Do\<close> hands a request to the transport of the client. A client without a transport, and
  \<open>Add\<close> on a nil header map, end in a panic.
\<close>

definition Do :: "client \<Rightarrow> Request \<Rightarrow> store \<Rightarrow> (error + Response) \<times> store" where
  "Do c req st =
     (case HTTPClient c of
        None \<Rightarrow> (Inl (Panic ''invalid memory address or nil pointer dereference''), st)
      | Some t \<Rightarrow>
          (case Header req of
             None \<Rightarrow> (fst (t req Map.empty), st)
           | Some a \<Rightarrow> (fst (t req (st ! a)), st[a := snd (t req (st ! a))])))"

definition decodeBody :: "library \<Rightarrow> Response \<Rightarrow> error + IdentityProviderResponse" where
  "decodeBody lib res = (case Response.Body res of Inl err \<Rightarrow> Inl err | Inr body \<Rightarrow> Decode lib body)"

definition providerPath :: "client \<Rightarrow> string \<Rightarrow> URL" where
  "providerPath c suffix = (BaseURL c)\<lparr>Path := Path (BaseURL c) @ suffix\<rparr>"

text \<open>
  Each operation first builds its request (\<open>\<dots>_request\<close>: the address, the method, the body
  and the header map of the request) and then sends it and reads the answer.
\<close>

definition GetIdentityProvider_request ::
  "library \<Rightarrow> client \<Rightarrow> string \<Rightarrow> store \<Rightarrow> error + (Request \<times> store)" where
  "GetIdentityProvider_request lib c pid st =
     (let url = providerPath c (''/admin/sso/providers/'' @ pid) in
      case NewRequestWithContext lib ''GET'' (String lib url) None of
        Some err \<Rightarrow> Inl err
      | None \<Rightarrow>
          Inr (\<lparr>Method = ''GET'', URL = String lib url, Header = fst (Clone (Headers c) st),
                Body = None\<rparr>, snd (Clone (Headers c) st)))"

definition client_GetIdentityProvider ::
  "library \<Rightarrow> client \<Rightarrow> string \<Rightarrow> store \<Rightarrow> (error + IdentityProviderResponse) \<times> store" where
  "client_GetIdentityProvider lib c pid st =
     (case GetIdentityProvider_request lib c pid st of
        Inl err \<Rightarrow> (Inl err, st)
      | Inr (req, st1) \<Rightarrow>
          (case Do c req st1 of
             (Inl err, st2) \<Rightarrow> (Inl err, st2)
           | (Inr res, st2) \<Rightarrow>
               (if StatusCode res \<noteq> 200
                then (Inl (parseError res 200
                        (Sprintf ''fetching identity provider with id %q'' [ArgString pid])), st2)
                else (decodeBody lib res, st2))))"

definition addContentType :: "ref \<Rightarrow> store \<Rightarrow> store option" where
  "addContentType r st =
     (case r of
        None \<Rightarrow> None
      | Some a \<Rightarrow> Some (st[a := Header_Add ''Content-Type'' ''application/json'' (st ! a)]))"

definition CreateIdentityProvider_request ::
  "library \<Rightarrow> client \<Rightarrow> IdentityProviderRequest \<Rightarrow> store \<Rightarrow> error + (Request \<times> store)" where
  "CreateIdentityProvider_request lib c template st =
     (let url = providerPath c ''/admin/sso/providers'' in
      case Encode lib template of
        Inl err \<Rightarrow> Inl err
      | Inr buffer \<Rightarrow>
          (case NewRequestWithContext lib ''POST'' (String lib url) (Some buffer) of
             Some err \<Rightarrow> Inl err
           | None \<Rightarrow>
               (case addContentType (fst (Clone (Headers c) st)) (snd (Clone (Headers c) st)) of
                  None \<Rightarrow> Inl (Panic ''assignment to entry in nil map'')
                | Some st1 \<Rightarrow>
                    Inr (\<lparr>Method = ''POST'', URL = String lib url,
                          Header = fst (Clone (Headers c) st), Body = Some buffer\<rparr>, st1))))"

definition client_CreateIdentityProvider ::
  "library \<Rightarrow> client \<Rightarrow> IdentityProviderRequest \<Rightarrow> store \<Rightarrow>
     (error + IdentityProviderResponse) \<times> store" where
  "client_CreateIdentityProvider lib c template st =
     (case CreateIdentityProvider_request lib c template st of
        Inl err \<Rightarrow> (Inl err, st)
      | Inr (req, st1) \<Rightarrow>
          (case Do c req st1 of
             (Inl err, st2) \<Rightarrow> (Inl err, st2)
           | (Inr res, st2) \<Rightarrow>
               (if StatusCode res \<noteq> 201
                then (Inl (parseError res 201 (Text ''creating new identity provider'')), st2)
                else (decodeBody lib res, st2))))"

definition UpdateIdentityProvider_request ::
  "library \<Rightarrow> client \<Rightarrow> string \<Rightarrow> IdentityProviderRequest \<Rightarrow> store \<Rightarrow> error + (Request \<times> store)" where
  "UpdateIdentityProvider_request lib c pid template st =
     (let url = providerPath c (''/admin/sso/providers/'' @ pid) in
      case Encode lib template of
        Inl err \<Rightarrow> Inl err
      | Inr buffer \<Rightarrow>
          (case NewRequestWithContext lib ''PUT'' (String lib url) (Some buffer) of
             Some err \<Rightarrow> Inl err
           | None \<Rightarrow>
               (case addContentType (fst (Clone (Headers c) st)) (snd (Clone (Headers c) st)) of
                  None \<Rightarrow> Inl (Panic ''assignment to entry in nil map'')
                | Some st1 \<Rightarrow>
                    Inr (\<lparr>Method = ''PUT'', URL = String lib url,
                          Header = fst (Clone (Headers c) st), Body = Some buffer\<rparr>, st1))))"

definition client_UpdateIdentityProvider ::
  "library \<Rightarrow> client \<Rightarrow> string \<Rightarrow> IdentityProviderRequest \<Rightarrow> store \<Rightarrow>
     (error + IdentityProviderResponse) \<times> store" where
  "client_UpdateIdentityProvider lib c pid template st =
     (case UpdateIdentityProvider_request lib c pid template st of
        Inl err \<Rightarrow> (Inl err, st)
      | Inr (req, st1) \<Rightarrow>
          (case Do c req st1 of
             (Inl err, st2) \<Rightarrow> (Inl err, st2)
           | (Inr res, st2) \<Rightarrow>
               (if StatusCode res \<noteq> 200
                then (Inl (parseError res 200
                        (Sprintf ''updating identity provider with ID %q'' [ArgString pid])), st2)
                else (decodeBody lib res, st2))))"

definition DeleteIdentityProvider_request ::
  "library \<Rightarrow> client \<Rightarrow> string \<Rightarrow> store \<Rightarrow> error + (Request \<times> store)" where
  "DeleteIdentityProvider_request lib c pid st =
     (let url = providerPath c (''/admin/sso/providers/'' @ pid) in
      case NewRequestWithContext lib ''DELETE'' (String lib url) None of
        Some err \<Rightarrow> Inl err
      | None \<Rightarrow>
          Inr (\<lparr>Method = ''DELETE'', URL = String lib url, Header = fst (Clone (Headers c) st),
                Body = None\<rparr>, snd (Clone (Headers c) st)))"

text \<open>\<open>DeleteIdentityProvider\<close> returns an error or nil (\<open>None\<close>).\<close>

definition client_DeleteIdentityProvider ::
  "library \<Rightarrow> client \<Rightarrow> string \<Rightarrow> store \<Rightarrow> error option \<times> store" where
  "client_DeleteIdentityProvider lib c pid st =
     (case DeleteIdentityProvider_request lib c pid st of
        Inl err \<Rightarrow> (Some err, st)
      | Inr (req, st1) \<Rightarrow>
          (case Do c req st1 of
             (Inl err, st2) \<Rightarrow> (Some err, st2)
           | (Inr res, st2) \<Rightarrow>
               (if StatusCode res \<noteq> 200
                then (Some (parseError res 200
                        (Sprintf ''deleting identity provider with ID %q'' [ArgString pid])), st2)
                else (None, st2))))"

text \<open>The interface \<open>Client\<close>, and a \<open>*client\<close> seen through it.\<close>

record Client =
  GetIdentityProvider :: "string \<Rightarrow> error + IdentityProviderResponse"
  CreateIdentityProvider :: "IdentityProviderRequest \<Rightarrow> error + IdentityProviderResponse"
  UpdateIdentityProvider :: "string \<Rightarrow> IdentityProviderRequest \<Rightarrow> error + IdentityProviderResponse"
  DeleteIdentityProvider :: "string \<Rightarrow> error option"

definition asClient :: "library \<Rightarrow> client \<Rightarrow> store \<Rightarrow> Client" where
  "asClient lib c st =
     \<lparr>GetIdentityProvider = (\<lambda>pid. fst (client_GetIdentityProvider lib c pid st)),
      CreateIdentityProvider = (\<lambda>template. fst (client_CreateIdentityProvider lib c template st)),
      UpdateIdentityProvider = (\<lambda>pid template. fst (client_UpdateIdentityProvider lib c pid template st)),
      DeleteIdentityProvider = (\<lambda>pid. fst (client_DeleteIdentityProvider lib c pid st))\<rparr>"

section \<open>The provider: the resource record\<close>

text \<open>
  A \<open>schema.ResourceData\<close> holds the identifier of the resource and, for every field, the
  value of the stored state and the value that \<open>Get\<close> returns: the planned value, or what
  \<open>Set\<close> has written since. A \<open>schema.Set\<close> of strings is kept as the list of its
  members without repetition, in the order in which they were added; \<open>Add\<close> of a member
  leaves the set as it is.
\<close>

record Fields =
  domains :: "string list"
  metadata_url :: string
  metadata_xml :: string
  attribute_mapping :: string
  created_at :: string
  updated_at :: string

record ResourceData =
  Id :: string
  state :: Fields
  plan :: Fields

definition Set_Add :: "string \<Rightarrow> string list \<Rightarrow> string list" where
  "Set_Add x s = (if x \<in> set s then s else s @ [x])"

definition NewSet :: "string list" where
  "NewSet = []"

definition Set_List :: "string list \<Rightarrow> string list" where
  "Set_List s = s"

text \<open>
  \<open>HasChange\<close> compares the stored and the planned value of a field; two sets are equal
  when they have the same members. \<open>GetOk\<close> is true when the value is not the zero value
  of its type.
\<close>

definition HasChange_domains :: "ResourceData \<Rightarrow> bool" where
  "HasChange_domains d = (set (domains (state d)) \<noteq> set (domains (plan d)))"

definition HasChange :: "(Fields \<Rightarrow> string) \<Rightarrow> ResourceData \<Rightarrow> bool" where
  "HasChange field d = (field (state d) \<noteq> field (plan d))"

definition GetOk :: "(Fields \<Rightarrow> 'a list) \<Rightarrow> ResourceData \<Rightarrow> bool" where
  "GetOk field d = (field (plan d) \<noteq> [])"

text \<open>
  The functions of the host and of the libraries that the provider calls and whose results
  the model does not compute: the RFC 3339 text of a time in UTC, and \<open>json.Marshal\<close> of an
  attribute mapping.
\<close>

record host =
  FormatRFC3339 :: "Time \<Rightarrow> string"
  Marshal :: "AttributeMapping \<Rightarrow> error + string"

section \<open>The provider: the resource operations\<close>

text \<open>
  \<open>d.Set\<close> fails only for a field that the schema does not have or for a value of the
  wrong type; neither happens for the calls below, so each \<open>Set\<close> writes its field.
\<close>

definition resourceIdentityProviderSet ::
  "host \<Rightarrow> IdentityProviderResponse \<Rightarrow> ResourceData \<Rightarrow> ResourceData \<times> Diagnostics" where
  "resourceIdentityProviderSet hst provider d =
     (let d1 = d\<lparr>Id := IdentityProviderResponse.ID provider\<rparr>;
          d2 = (if SAML.MetadataURL (SAML provider) \<noteq> ''''
                then d1\<lparr>plan := (plan d1)\<lparr>metadata_url := SAML.MetadataURL (SAML provider)\<rparr>\<rparr>
                else if SAML.MetadataXML (SAML provider) \<noteq> ''''
                then d1\<lparr>plan := (plan d1)\<lparr>metadata_xml := SAML.MetadataXML (SAML provider)\<rparr>\<rparr>
                else d1);
          d3 = d2\<lparr>plan := (plan d2)
                 \<lparr>created_at := FormatRFC3339 hst (IdentityProviderResponse.CreatedAt provider)\<rparr>\<rparr>;
          d4 = d3\<lparr>plan := (plan d3)
                 \<lparr>updated_at := FormatRFC3339 hst (IdentityProviderResponse.UpdatedAt provider)\<rparr>\<rparr>;
          domains0 = foldl (\<lambda>ds domain. ds @ [Domain domain]) []
                       (IdentityProviderResponse.Domains provider);
          domains1 = sort domains0;
          domainsSet = foldl (\<lambda>s domain. Set_Add domain s) NewSet domains1;
          d5 = d4\<lparr>plan := (plan d4)\<lparr>domains := domainsSet\<rparr>\<rparr>
      in case Marshal hst (SAML.AttributeMapping (SAML provider)) of
           Inl err \<Rightarrow> (d5, FromErr err)
         | Inr keys \<Rightarrow> (d5\<lparr>plan := (plan d5)\<lparr>attribute_mapping := keys\<rparr>\<rparr>, []))"

definition resourceIdentityProviderRead ::
  "host \<Rightarrow> Client \<Rightarrow> ResourceData \<Rightarrow> ResourceData \<times> Diagnostics" where
  "resourceIdentityProviderRead hst m d =
     (case GetIdentityProvider m (Id d) of
        Inl err \<Rightarrow> (d, FromErr err)
      | Inr provider \<Rightarrow> resourceIdentityProviderSet hst provider d)"

definition zeroRequest :: IdentityProviderRequest where
  "zeroRequest =
     \<lparr>IdentityProviderRequest.ID = '''', IdentityProviderRequest.ResourceID = '''',
      IdentityProviderRequest.Type = '''', IdentityProviderRequest.Domains = None,
      IdentityProviderRequest.MetadataXML = '''', IdentityProviderRequest.MetadataURL = '''',
      IdentityProviderRequest.AttributeMapping = zeroAttributeMapping,
      IdentityProviderRequest.CreatedAt = 0, IdentityProviderRequest.UpdatedAt = 0\<rparr>"

definition append_Domains :: "string list option \<Rightarrow> string \<Rightarrow> string list option" where
  "append_Domains ds x = (case ds of None \<Rightarrow> Some [x] | Some xs \<Rightarrow> Some (xs @ [x]))"

text \<open>
  The request that \<open>resourceIdentityProviderUpdate\<close> builds before it calls the client
  (its \<open>template\<close>), or the error with which it returns before any call.
\<close>

definition resourceIdentityProviderUpdate_template ::
  "ResourceData \<Rightarrow> error + IdentityProviderRequest" where
  "resourceIdentityProviderUpdate_template d =
     (let t0 = zeroRequest;
          t1 = (if HasChange metadata_url d
                then t0\<lparr>IdentityProviderRequest.MetadataURL := metadata_url (plan d)\<rparr>
                else if HasChange metadata_xml d
                then t0\<lparr>IdentityProviderRequest.MetadataXML := metadata_xml (plan d)\<rparr>
                else t0);
          t2 = (if HasChange_domains d
                then foldl (\<lambda>t domain.
                        t\<lparr>IdentityProviderRequest.Domains :=
                            append_Domains (IdentityProviderRequest.Domains t) domain\<rparr>)
                      t1 (Set_List (domains (plan d)))
                else t1)
      in if HasChange attribute_mapping d
            \<and> GetOk attribute_mapping d \<and> attribute_mapping (plan d) \<noteq> ''''
         then (case Unmarshal_AttributeMapping (attribute_mapping (plan d))
                      (IdentityProviderRequest.AttributeMapping t2) of
                 Inl err \<Rightarrow> Inl (JSON err)
               | Inr am \<Rightarrow> Inr (t2\<lparr>IdentityProviderRequest.AttributeMapping := am\<rparr>))
         else Inr t2)"

definition resourceIdentityProviderUpdate ::
  "host \<Rightarrow> Client \<Rightarrow> ResourceData \<Rightarrow> ResourceData \<times> Diagnostics" where
  "resourceIdentityProviderUpdate hst m d =
     (case resourceIdentityProviderUpdate_template d of
        Inl err \<Rightarrow> (d, FromErr err)
      | Inr template \<Rightarrow>
          (case UpdateIdentityProvider m (Id d) template of
             Inl err \<Rightarrow> (d, FromErr err)
           | Inr provider \<Rightarrow> resourceIdentityProviderSet hst provider d))"

definition resourceIdentityProviderDelete :: "Client \<Rightarrow> ResourceData \<Rightarrow> ResourceData \<times> Diagnostics" where
  "resourceIdentityProviderDelete m d =
     (case DeleteIdentityProvider m (Id d) of
        Some err \<Rightarrow> (d, FromErr err)
      | None \<Rightarrow> (d\<lparr>Id := ''''\<rparr>, []))"

text \<open>The request that \<open>resourceIdentityProviderCreate\<close> builds, or its early error.\<close>

definition resourceIdentityProviderCreate_template ::
  "ResourceData \<Rightarrow> error + IdentityProviderRequest" where
  "resourceIdentityProviderCreate_template d =
     (let t0 = zeroRequest\<lparr>Type := ''saml''\<rparr>;
          t1 = (if GetOk metadata_url d \<and> metadata_url (plan d) \<noteq> ''''
                then t0\<lparr>IdentityProviderRequest.MetadataURL := metadata_url (plan d)\<rparr>
                else if GetOk metadata_xml d \<and> metadata_xml (plan d) \<noteq> ''''
                then t0\<lparr>IdentityProviderRequest.MetadataXML := metadata_xml (plan d)\<rparr>
                else t0);
          t2 = (if GetOk domains d
                then t1\<lparr>IdentityProviderRequest.Domains :=
                        foldl append_Domains None (Set_List (domains (plan d)))\<rparr>
                else t1)
      in if GetOk attribute_mapping d \<and> attribute_mapping (plan d) \<noteq> ''''
         then (case Unmarshal_AttributeMapping (attribute_mapping (plan d))
                      (IdentityProviderRequest.AttributeMapping t2) of
                 Inl err \<Rightarrow> Inl (JSON err)
               | Inr am \<Rightarrow> Inr (t2\<lparr>IdentityProviderRequest.AttributeMapping := am\<rparr>))
         else Inr t2)"

definition resourceIdentityProviderCreate ::
  "host \<Rightarrow> Client \<Rightarrow> ResourceData \<Rightarrow> ResourceData \<times> Diagnostics" where
  "resourceIdentityProviderCreate hst m d =
     (case resourceIdentityProviderCreate_template d of
        Inl err \<Rightarrow> (d, FromErr err)
      | Inr template \<Rightarrow>
          (case CreateIdentityProvider m template of
             Inl err \<Rightarrow> (d, FromErr err)
           | Inr provider \<Rightarrow> resourceIdentityProviderSet hst provider d))"

text \<open>
  The members that the encoding of a request has, by the \<open>json\<close> tags of the struct:
  \<open>omitempty\<close> leaves out an empty string and a nil pointer or slice, and keeps a struct.
\<close>

definition encodedMembers :: "IdentityProviderRequest \<Rightarrow> string list" where
  "encodedMembers t =
     (if IdentityProviderRequest.ID t \<noteq> '''' then [''id''] else []) @
     (if IdentityProviderRequest.ResourceID t \<noteq> '''' then [''resource_id''] else []) @
     (if Type t \<noteq> '''' then [''type''] else []) @
     (if IdentityProviderRequest.Domains t \<noteq> None then [''domains''] else []) @
     (if IdentityProviderRequest.MetadataXML t \<noteq> '''' then [''metadata_xml''] else []) @
     (if IdentityProviderRequest.MetadataURL t \<noteq> '''' then [''metadata_url''] else []) @
     [''attribute_mapping'', ''created_at'', ''updated_at'']"

section \<open>The provider: validation of the fields\<close>

text \<open>
  The loop body of the \<open>attribute_mapping\<close> validator, for one key of the mapping, and the
  inner loop over the names with their positions.
\<close>

fun namesDiagnostics :: "string \<Rightarrow> nat \<Rightarrow> string list \<Rightarrow> Diagnostics" where
  "namesDiagnostics key i [] = []"
| "namesDiagnostics key i (name # names) =
     (if name = ''''
      then [\<lparr>Severity = diag_Error,
             Summary = Sprintf ''Attribute mapping name under %q.names at position %v is empty''
                         [ArgString key, ArgInt (int i)],
             Detail = Text ''''\<rparr>]
      else []) @ namesDiagnostics key (Suc i) names"

definition keyDiagnostics :: "string \<times> Attribute \<Rightarrow> Diagnostics" where
  "keyDiagnostics kv =
     (let key = fst kv; value = snd kv in
      if Name value = '''' \<and> length (Names value) = 0 \<and> Default value = None
      then [\<lparr>Severity = diag_Error,
             Summary = Sprintf
               ''Attribute mapping key %q must have at least one property set: name, names or default''
               [ArgString key],
             Detail = Text ''''\<rparr>]
      else if length (Names value) > 0 then namesDiagnostics key 0 (Names value)
      else [])"

definition attributeMappingValidateDiagFunc :: "string \<Rightarrow> Diagnostics" where
  "attributeMappingValidateDiagFunc v =
     (case Unmarshal_AttributeMapping v zeroAttributeMapping of
        Inl err \<Rightarrow>
          [\<lparr>Severity = diag_Error,
            Summary = Text ''attribute_mapping must be valid JSON'',
            Detail = Sprintf ''JSON parsing failed: %v'' [ArgText (error_Error (JSON err))]\<rparr>]
      | Inr mapping \<Rightarrow> concat (map keyDiagnostics (Keys mapping)))"

text \<open>
  The pattern of the loopback hosts,
  \<open>"^(localhost|127(.[0-9]{1,3}){3})(:[0-9]+)?$"\<close>; its dots are not escaped either.
\<close>

definition localhostPattern :: rx where
  "localhostPattern =
     Seq (Alt (Word ''localhost'')
              (Seq (Word ''127'') (Times 3 (Seq Dot (Between 1 3 digits)))))
         (Opt (Seq (Lit (CHR '':'')) (Plus digits)))"

text \<open>
  The validator of the provider's \<open>url\<close>. \<open>url.ParseRequestURI\<close> is a parameter; it returns
  a nil \<open>*url.URL\<close> together with its error.
\<close>

definition urlValidateDiagFunc :: "(string \<Rightarrow> error + URL) \<Rightarrow> string \<Rightarrow> error + Diagnostics" where
  "urlValidateDiagFunc ParseRequestURI rawURL =
     (if rawURL = ''''
      then Inr [\<lparr>Severity = diag_Error, Summary = Text ''GoTrue URL is empty'', Detail = Text ''''\<rparr>]
      else
        (let parsed = ParseRequestURI rawURL;
             diags1 = (case parsed of
                         Inl err \<Rightarrow>
                           [\<lparr>Severity = diag_Error, Summary = Text ''GoTrue URL is not valid'',
                             Detail = Sprintf ''Unable to parse URL: %s'' [ArgText (error_Error err)]\<rparr>]
                       | Inr u \<Rightarrow> [])
         in case parsed of
              Inl err \<Rightarrow> Inl (Panic ''invalid memory address or nil pointer dereference'')
            | Inr parsedURL \<Rightarrow>
                (let diags2 =
                       (if Scheme parsedURL \<noteq> ''http'' \<and> Scheme parsedURL \<noteq> ''https''
                        then diags1 @
                          [\<lparr>Severity = diag_Error,
                            Summary = Sprintf ''GoTrue URL is not HTTP(S): %q'' [ArgString (Scheme parsedURL)],
                            Detail = Text ''''\<rparr>]
                        else diags1);
                     islocalhost = MatchString localhostPattern (Host parsedURL)
                 in Inr (if \<not> islocalhost \<and> Scheme parsedURL = ''http''
                         then diags2 @
                           [\<lparr>Severity = diag_Warning,
                             Summary = Text ''GoTrue URL does not use HTTPS'',
                             Detail = Text ''Communication with GoTrue should occur over HTTPS whenever possible''\<rparr>]
                         else diags2))))"

section \<open>Example values\<close>

text \<open>
  A library whose functions always succeed, a transport that answers every request with a
  given status and body, a transport that fails, a client of the base address
  \<open>http://localhost:9999\<close> whose default headers are the first map of the store, and a
  record with the identifier \<open>abc\<close>.
\<close>

definition exampleLibrary :: library where
  "exampleLibrary =
     \<lparr>String = (\<lambda>u. Scheme u @ ''://'' @ Host u @ Path u),
      NewRequestWithContext = (\<lambda>method url body. None),
      Encode = (\<lambda>template. Inr ''{}''),
      Decode = (\<lambda>body. Inl (Opaque ''EOF'')),
      DefaultClient = (\<lambda>req hdr. (Inl (Opaque ''connection refused''), hdr))\<rparr>"

definition answering :: "int \<Rightarrow> string \<Rightarrow> HTTPClient" where
  "answering status body = (\<lambda>req hdr. (Inr \<lparr>StatusCode = status, Body = Inr body\<rparr>, hdr))"

definition failing :: HTTPClient where
  "failing = (\<lambda>req hdr. (Inl (Opaque ''connection refused''), hdr))"

definition exampleClient :: "HTTPClient \<Rightarrow> client" where
  "exampleClient t =
     \<lparr>HTTPClient = Some t,
      BaseURL = \<lparr>Scheme = ''http'', Host = ''localhost:9999'', Path = ''''\<rparr>,
      Headers = Some 0\<rparr>"

definition exampleStore :: store where
  "exampleStore = [[''Authorization'' \<mapsto> [''Bearer token'']]]"

definition exampleRecord :: ResourceData where
  "exampleRecord =
     \<lparr>Id = ''abc'',
      state = \<lparr>domains = [''a.com''], metadata_url = ''https://idp.example/saml'', metadata_xml = '''',
               attribute_mapping = '''', created_at = '''', updated_at = ''''\<rparr>,
      plan = \<lparr>domains = [''a.com''], metadata_url = ''https://idp.example/saml'', metadata_xml = '''',
              attribute_mapping = '''', created_at = '''', updated_at = ''''\<rparr>\<rparr>"

definition exampleDelete :: Request where
  "exampleDelete =
     \<lparr>Method = ''DELETE'', URL = ''http://localhost:9999/admin/sso/providers/abc'',
      Header = Some 1, Body = None\<rparr>"

text \<open>A transport that adds a cookie to the headers of the request it is given.\<close>

definition tampering :: HTTPClient where
  "tampering =
     (\<lambda>req hdr. (Inr \<lparr>StatusCode = 500, Body = Inr ''<html>''\<rparr>, hdr(''Cookie'' \<mapsto> [''session=1''])))"

definition examplePost :: Request where
  "examplePost =
     \<lparr>Method = ''POST'', URL = ''http://localhost:9999/admin/sso/providers'',
      Header = Some 1, Body = Some ''{}''\<rparr>"

text \<open>
  Auxiliary notions for the properties of the decoder: the values of the members of an
  object whose key is a given name up to case, in the order of the text, and whether a value
  is of a kind that an integer field or a string field takes.
\<close>

definition memberValues :: "string \<Rightarrow> (string \<times> json) list \<Rightarrow> json list" where
  "memberValues name ms = map snd (filter (\<lambda>m. foldName (fst m) = name) ms)"

definition fitsInt :: "json \<Rightarrow> bool" where
  "fitsInt v = snd (storeInt v 0)"

definition fitsString :: "json \<Rightarrow> bool" where
  "fitsString v = snd (storeString v [])"

definition fitsError :: "(string \<times> json) list \<Rightarrow> bool" where
  "fitsError ms =
     (list_all fitsInt (memberValues ''CODE'' ms) \<and> list_all fitsString (memberValues ''MSG'' ms)
        \<and> list_all fitsString (memberValues ''ERROR_ID'' ms))"

section \<open>Properties of the pattern matcher\<close>

lemma nullable_iff: "nullable r \<longleftrightarrow> [] \<in> lang r"
  by (induction r) (auto intro: star.star_nil)

lemma star_ConsD:
  "x \<in> star A \<Longrightarrow> x = c # w \<Longrightarrow> \<exists>u v. w = u @ v \<and> c # u \<in> A \<and> v \<in> star A"
proof (induction arbitrary: w rule: star.induct)
  case star_nil
  then show ?case by simp
next
  case (star_app u v)
  show ?case
  proof (cases u)
    case Nil
    with star_app show ?thesis by simp
  next
    case (Cons d u')
    with star_app have "w = u' @ v" "c # u' \<in> A" by auto
    with star_app(2) show ?thesis by blast
  qed
qed

lemma star_Cons:
  "c # w \<in> star A \<longleftrightarrow> (\<exists>u v. w = u @ v \<and> c # u \<in> A \<and> v \<in> star A)"
proof
  assume "c # w \<in> star A"
  then show "\<exists>u v. w = u @ v \<and> c # u \<in> A \<and> v \<in> star A"
    by (rule star_ConsD) simp
next
  assume "\<exists>u v. w = u @ v \<and> c # u \<in> A \<and> v \<in> star A"
  then obtain u v where "w = u @ v" "c # u \<in> A" "v \<in> star A" by blast
  then show "c # w \<in> star A" using star.star_app [of "c # u" A v] by simp
qed

lemma lango_seqo: "lango (seqo ro s) = {u @ v | u v. u \<in> lango ro \<and> v \<in> lang s}"
  by (cases ro) auto

lemma lango_alto: "lango (alto a b) = lango a \<union> lango b"
  by (cases a; cases b) auto

lemma lango_step: "lango (step r c) = {w. c # w \<in> lang r}"
proof (induction r)
  case (Seq r s)
  show ?case
  proof (cases "nullable r")
    case True
    then have "[] \<in> lang r" by (simp add: nullable_iff)
    then show ?thesis
      using Seq by (auto simp: lango_seqo lango_alto Cons_eq_append_conv True) 
  next
    case False
    then have "[] \<notin> lang r" by (simp add: nullable_iff)
    then show ?thesis
      using Seq by (auto simp: lango_seqo Cons_eq_append_conv False) 
  qed
next
  case (Star r)
  then show ?case by (auto simp: lango_seqo star_Cons)
qed (auto simp: lango_alto)

lemma run_iff: "run ro s \<longleftrightarrow> s \<in> lango ro"
proof (induction s arbitrary: ro)
  case Nil
  then show ?case by (cases ro) (auto simp: nullable_iff)
next
  case (Cons c cs)
  then show ?case by (cases ro) (auto simp: lango_step)
qed

lemma matches_iff: "matches r cs \<longleftrightarrow> cs \<in> lang r"
  by (simp add: matches_def run_iff)

lemma MatchString_iff: "MatchString r s \<longleftrightarrow> runes s \<in> lang r"
  by (simp add: MatchString_def matches_iff)

lemma runes_ascii: "list_all (\<lambda>c. (of_char c :: nat) < 128) s \<Longrightarrow> runes s = s"
  by (induction s) (simp_all add: runeLen_def byteIn_def)

section \<open>Domain validation\<close>

subsection \<open>The language of the pattern\<close>

lemma star_single: "w \<in> star {[c] | c. P c} \<longleftrightarrow> list_all P w"
proof
  show "w \<in> star {[c] | c. P c} \<Longrightarrow> list_all P w"
    by (induction rule: star.induct) auto
  show "list_all P w \<Longrightarrow> w \<in> star {[c] | c. P c}"
  proof (induction w)
    case Nil
    show ?case by (rule star.star_nil)
  next
    case (Cons c w)
    then have "[c] \<in> {[c] | c. P c}" "w \<in> star {[c] | c. P c}" by auto
    then have "[c] @ w \<in> star {[c] | c. P c}" by (rule star.star_app)
    then show ?case by simp
  qed
qed

lemma single_concat:
  "{u @ v | u v. u \<in> {[c] | c. P c} \<and> v \<in> B} = {c # v | c v. P c \<and> v \<in> B}"
proof -
  have "\<exists>u w. c # v = u @ w \<and> (\<exists>d. u = [d] \<and> P d) \<and> w \<in> B" if "P c" "v \<in> B" for c v
    using that by (intro exI [of _ "[c]"] exI [of _ v]) simp
  then show ?thesis by auto
qed

lemma lang_Plus_Class: "lang (Plus (Class rs)) = {w. w \<noteq> [] \<and> list_all (inClass rs) w}"
proof -
  have "lang (Plus (Class rs)) = {c # v | c v. inClass rs c \<and> v \<in> star {[c] | c. inClass rs c}}"
    unfolding Plus.simps lang.simps by (rule single_concat)
  also have "\<dots> = {w. w \<noteq> [] \<and> list_all (inClass rs) w}"
    by (auto simp: neq_Nil_conv star_single)
  finally show ?thesis .
qed

lemma lang_Dot_Plus:
  "lang (Seq Dot (Plus (Class domainClass))) =
     {d # w | d w. d \<noteq> lineFeed \<and> w \<noteq> [] \<and> list_all domainChar w}"
proof -
  have "lang (Seq Dot (Plus (Class domainClass))) =
      {u @ v | u v. u \<in> {[c] | c. c \<noteq> lineFeed} \<and> v \<in> lang (Plus (Class domainClass))}"
    by simp
  also have "\<dots> = {c # v | c v. c \<noteq> lineFeed \<and> v \<in> lang (Plus (Class domainClass))}"
    by (rule single_concat)
  finally show ?thesis unfolding lang_Plus_Class domainChar_def by simp
qed

lemma lang_domainPattern:
  "lang domainPattern = {u @ v | u v. u \<noteq> [] \<and> list_all domainChar u \<and> v \<in> seps}"
proof -
  have "lang domainPattern =
      {u @ v | u v. u \<in> lang (Plus (Class domainClass)) \<and>
         v \<in> star (lang (Seq Dot (Plus (Class domainClass))))}"
    unfolding domainPattern_def by simp
  then show ?thesis unfolding lang_Dot_Plus lang_Plus_Class seps_def domainChar_def by simp
qed

lemma accInside_prefix: "list_all domainChar u \<Longrightarrow> accInside v \<Longrightarrow> accInside (u @ v)"
  by (induction u) auto

lemma seps_accInside: "v \<in> seps \<Longrightarrow> accInside v"
  unfolding seps_def
proof (induction rule: star.induct)
  case star_nil
  show ?case by simp
next
  case (star_app u v)
  then obtain d w where u: "u = d # w" "d \<noteq> lineFeed" "w \<noteq> []" "list_all domainChar w" by auto
  then obtain c w' where w: "w = c # w'" by (cases w) auto
  have "accInside (w @ v)" using u star_app by (simp add: accInside_prefix)
  moreover have "accStart (w @ v)" using u w star_app by (simp add: accInside_prefix)
  ultimately show ?case using u by simp
qed

lemma accStart_lang:
  "(accStart s \<longrightarrow> (\<exists>u v. s = u @ v \<and> u \<noteq> [] \<and> list_all domainChar u \<and> v \<in> seps)) \<and>
   (accInside s \<longrightarrow> (\<exists>u v. s = u @ v \<and> list_all domainChar u \<and> v \<in> seps))"
proof (induction s)
  case Nil
  have "[] \<in> seps" unfolding seps_def by (rule star.star_nil)
  then show ?case by simp
next
  case (Cons c cs)
  have N: "\<exists>u v. c # cs = u @ v \<and> u \<noteq> [] \<and> list_all domainChar u \<and> v \<in> seps" if "domainChar c" "accInside cs"
  proof -
    from that Cons obtain u v where "cs = u @ v" "list_all domainChar u" "v \<in> seps" by blast
    then have "c # cs = (c # u) @ v \<and> c # u \<noteq> [] \<and> list_all domainChar (c # u) \<and> v \<in> seps"
      using that by simp
    then show ?thesis by blast
  qed
  have I: "\<exists>u v. c # cs = u @ v \<and> list_all domainChar u \<and> v \<in> seps" if "\<not> domainChar c" "c \<noteq> lineFeed" "accStart cs"
  proof -
    from that Cons obtain u v where uv: "cs = u @ v" "u \<noteq> []" "list_all domainChar u" "v \<in> seps" by blast
    then have "c # u \<in> {d # w | d w. d \<noteq> lineFeed \<and> w \<noteq> [] \<and> list_all domainChar w}"
      using that by simp
    then have "(c # u) @ v \<in> seps" using uv(4) unfolding seps_def by (rule star.star_app)
    then have "c # cs = [] @ ((c # u) @ v) \<and> list_all domainChar [] \<and> (c # u) @ v \<in> seps"
      using uv by simp
    then show ?thesis by blast
  qed
  show ?case using N I by (auto simp del: append_Cons append.simps)
qed

lemma MatchString_domainPattern: "MatchString domainPattern s \<longleftrightarrow> accStart (runes s)"
proof
  assume "MatchString domainPattern s"
  then obtain u v where "runes s = u @ v" "u \<noteq> []" "list_all domainChar u" "v \<in> seps"
    by (auto simp: MatchString_iff lang_domainPattern)
  then show "accStart (runes s)" by (cases u) (auto simp: accInside_prefix seps_accInside)
next
  assume "accStart (runes s)"
  then show "MatchString domainPattern s"
    using accStart_lang [of "runes s"] by (auto simp: MatchString_iff lang_domainPattern)
qed

lemma domainChar_lineFeed: "\<not> domainChar lineFeed"
  by (simp add: domainChar_def inClass_def inRange_def domainClass_def lineFeed_def)

lemma domainChar_dot: "\<not> domainChar (CHR ''.'')"
  by (simp add: domainChar_def inClass_def inRange_def domainClass_def)

lemma accStart_shape:
  "(accStart s \<longrightarrow> s \<noteq> [] \<and> domainChar (hd s) \<and> domainChar (last s) \<and> \<not> adjacentOutside s \<and> lineFeed \<notin> set s) \<and>
   (accInside s \<longrightarrow> (s \<noteq> [] \<longrightarrow> domainChar (last s)) \<and> \<not> adjacentOutside s \<and> lineFeed \<notin> set s)"
proof (induction s)
  case Nil
  show ?case by simp
next
  case (Cons c cs)
  show ?case
  proof (cases cs)
    case Nil
    then show ?thesis using domainChar_lineFeed by auto
  next
    case (Cons d ds)
    then show ?thesis using Cons.IH domainChar_lineFeed by (auto split: if_splits)
  qed
qed

lemma splitDots_nonempty: "splitDots s \<noteq> []"
  by (induction s) (auto split: list.splits)

lemma specDomain_acc:
  "(list_all segmentOk (splitDots s) \<longrightarrow> accStart s) \<and>
   (list_all domainChar (hd (splitDots s)) \<and> list_all segmentOk (tl (splitDots s)) \<longrightarrow> accInside s)"
proof (induction s)
  case Nil
  show ?case by (simp add: segmentOk_def)
next
  case (Cons c cs)
  obtain seg segs where sp: "splitDots cs = seg # segs"
    using splitDots_nonempty [of cs] by (cases "splitDots cs") auto
  show ?case
  proof (cases "c = CHR ''.''")
    case True
    then show ?thesis using Cons domainChar_dot by (simp add: segmentOk_def lineFeed_def)
  next
    case False
    then show ?thesis using Cons sp
      by (auto simp: segmentOk_def domainChar_def)
  qed
qed

lemma splitDots_chars:
  "c \<in> set s \<Longrightarrow> c = CHR ''.'' \<or> (\<exists>seg \<in> set (splitDots s). c \<in> set seg)"
proof (induction s)
  case Nil
  then show ?case by simp
next
  case (Cons d ds)
  obtain seg segs where sp: "splitDots ds = seg # segs"
    using splitDots_nonempty [of ds] by (cases "splitDots ds") auto
  show ?case using Cons sp by (auto split: if_splits)
qed

lemma domainChar_ascii: "domainChar c \<Longrightarrow> (of_char c :: nat) < 128"
  by (auto simp: domainChar_def inClass_def inRange_def domainClass_def)

lemma specDomain_runes: "specDomain s \<Longrightarrow> runes s = s"
proof (rule runes_ascii)
  assume sd: "specDomain s"
  have "(of_char c :: nat) < 128" if "c \<in> set s" for c
  proof -
    from splitDots_chars [OF that] show ?thesis
    proof
      assume "c = CHR ''.''"
      then show ?thesis by simp
    next
      assume "\<exists>seg \<in> set (splitDots s). c \<in> set seg"
      then obtain seg where "seg \<in> set (splitDots s)" "c \<in> set seg" by blast
      then have "domainChar c"
        using sd by (auto simp: specDomain_def segmentOk_def domainChar_def list_all_iff)
      then show ?thesis by (rule domainChar_ascii)
    qed
  qed
  then show "list_all (\<lambda>c. (of_char c :: nat) < 128) s" by (simp add: list_all_iff)
qed

subsection \<open>The validator\<close>

lemma specDomain_example: "specDomain ''example.com''"
  by (simp add: specDomain_def segmentOk_def inClass_def inRange_def domainClass_def)

lemma surelyInvalid_EXAMPLE: "surelyInvalid ''EXAMPLE.com''"
  by (simp add: surelyInvalid_def domainChar_def inClass_def inRange_def domainClass_def
      runeLen_def byteIn_def)

text \<open>
  Claim C1, as the code has it. A text of the worded pattern (segments of lower-case letters,
  digits and hyphens between single dots) gets no diagnostic. A text that is empty, that
  begins or ends with a character outside the class, that has two neighbouring characters
  outside the class (so every leading, trailing or doubled dot), or that holds a line feed
  gets exactly one error diagnostic; a character is a character of the UTF-8 text here. No text gets more than one, and the diagnostics of a
  list of entries are those of every rejected entry, in order: the first failure does not
  stop the validation of the others.
\<close>

theorem domains_validator_by_pattern:
  "(specDomain s \<longrightarrow> domainsValidateDiagFunc s = []) \<and>
   (surelyInvalid s \<longrightarrow>
      domainsValidateDiagFunc s =
        [\<lparr>Severity = diag_Error,
          Summary = Sprintf ''Value %q is not a valid domain'' [ArgString s],
          Detail = Text ''''\<rparr>]) \<and>
   length (domainsValidateDiagFunc s) \<le> 1 \<and>
   validateDomains vs =
     map (\<lambda>v. \<lparr>Severity = diag_Error,
                Summary = Sprintf ''Value %q is not a valid domain'' [ArgString v],
                Detail = Text ''''\<rparr>)
       (filter (\<lambda>v. \<not> MatchString domainPattern v) vs)"
proof -
  have a: "domainsValidateDiagFunc s = []" if "specDomain s"
    using that specDomain_acc [of s] specDomain_runes [OF that]
    by (simp add: domainsValidateDiagFunc_def MatchString_domainPattern specDomain_def)
  have b: "\<not> MatchString domainPattern s" if "surelyInvalid s"
    using that accStart_shape [of "runes s"]
    by (auto simp: MatchString_domainPattern surelyInvalid_def)
  have c: "length (domainsValidateDiagFunc s) \<le> 1"
    by (simp add: domainsValidateDiagFunc_def)
  have d: "validateDomains vs =
     map (\<lambda>v. \<lparr>Severity = diag_Error,
                Summary = Sprintf ''Value %q is not a valid domain'' [ArgString v],
                Detail = Text ''''\<rparr>)
       (filter (\<lambda>v. \<not> MatchString domainPattern v) vs)"
    unfolding validateDomains_def
    by (induction vs) (simp_all add: domainsValidateDiagFunc_def)
  show ?thesis using a b c d by (simp add: domainsValidateDiagFunc_def)
qed

theorem domains_validator_by_pattern_witness:
  "specDomain ''example.com'' \<and> domainsValidateDiagFunc ''example.com'' = [] \<and>
   surelyInvalid ''EXAMPLE.com'' \<and>
   domainsValidateDiagFunc ''EXAMPLE.com'' =
     [\<lparr>Severity = diag_Error,
       Summary = Sprintf ''Value %q is not a valid domain'' [ArgString ''EXAMPLE.com''],
       Detail = Text ''''\<rparr>] \<and>
   surelyInvalid '''' \<and>
   domainsValidateDiagFunc '''' =
     [\<lparr>Severity = diag_Error,
       Summary = Sprintf ''Value %q is not a valid domain'' [ArgString ''''],
       Detail = Text ''''\<rparr>]"
  using domains_validator_by_pattern [of "''example.com''"]
    domains_validator_by_pattern [of "''EXAMPLE.com''"]
    domains_validator_by_pattern [of "''''"]
    specDomain_example surelyInvalid_EXAMPLE
  by (simp add: surelyInvalid_def)

text \<open>
  Claim C1 as stated fails at \<open>"-bad.com"\<close>: the hyphen is a member of the bracket class, so
  a segment may begin with it, and the validator has no diagnostic for this text.
\<close>

theorem domains_leading_hyphen_counterexample:
  "domainsValidateDiagFunc ''-bad.com'' = []"
  by (simp add: domainsValidateDiagFunc_def MatchString_domainPattern domainChar_def
      inClass_def inRange_def domainClass_def lineFeed_def runeLen_def byteIn_def)

text \<open>
  The dot of the pattern is not escaped and stands for any character but the line feed, so a
  text such as \<open>"exAmple_com"\<close> is accepted although it is not of the worded pattern; so
  is a text with one character of two bytes between two letters.
\<close>

lemma domains_any_separator:
  "domainsValidateDiagFunc ''exAmple_com'' = [] \<and> \<not> specDomain ''exAmple_com''"
  by (simp add: domainsValidateDiagFunc_def MatchString_domainPattern domainChar_def
      inClass_def inRange_def domainClass_def specDomain_def segmentOk_def lineFeed_def
      runeLen_def byteIn_def)

lemma domains_separator_of_two_bytes:
  "domainsValidateDiagFunc (''a'' @ [CHR 0xC3, CHR 0xA9] @ ''b'') = []"
  by (simp add: domainsValidateDiagFunc_def MatchString_domainPattern domainChar_def
      inClass_def inRange_def domainClass_def lineFeed_def runeLen_def byteIn_def)

section \<open>Update: the fields of the request\<close>

lemma foldl_append_Domains:
  "foldl (\<lambda>t domain. t\<lparr>IdentityProviderRequest.Domains :=
             append_Domains (IdentityProviderRequest.Domains t) domain\<rparr>) t xs =
   t\<lparr>IdentityProviderRequest.Domains := foldl append_Domains (IdentityProviderRequest.Domains t) xs\<rparr>"
  by (induction xs arbitrary: t) simp_all

lemma update_template_fields:
  assumes "resourceIdentityProviderUpdate_template d = Inr t"
  shows "IdentityProviderRequest.MetadataURL t =
           (if HasChange metadata_url d then metadata_url (plan d) else '''')"
    and "IdentityProviderRequest.MetadataXML t =
           (if \<not> HasChange metadata_url d \<and> HasChange metadata_xml d then metadata_xml (plan d) else '''')"
    and "IdentityProviderRequest.Domains t =
           (if HasChange_domains d then foldl append_Domains None (domains (plan d)) else None)"
  using assms
  by (auto simp: resourceIdentityProviderUpdate_template_def Let_def zeroRequest_def
      foldl_append_Domains Set_List_def split: if_splits sum.splits)

text \<open>
  Claim C2, as the code has it. The two checks form one \<open>if \<dots> else if\<close>: the check of the
  metadata XML is made only when the metadata URL has not changed. No update request has
  both fields set. When the URL has changed, the request carries the planned URL and no XML;
  the request carries the planned XML only when the XML has changed and the URL has not.
\<close>

theorem update_metadata_exclusive:
  "resourceIdentityProviderUpdate_template d = Inr t \<Longrightarrow>
     (IdentityProviderRequest.MetadataURL t = '''' \<or> IdentityProviderRequest.MetadataXML t = '''') \<and>
     (HasChange metadata_url d \<longrightarrow>
        IdentityProviderRequest.MetadataURL t = metadata_url (plan d) \<and>
        IdentityProviderRequest.MetadataXML t = '''') \<and>
     (\<not> HasChange metadata_url d \<and> HasChange metadata_xml d \<longrightarrow>
        IdentityProviderRequest.MetadataURL t = '''' \<and>
        IdentityProviderRequest.MetadataXML t = metadata_xml (plan d))"
  by (simp add: update_template_fields)

theorem update_metadata_exclusive_witness:
  "resourceIdentityProviderUpdate_template
     \<lparr>Id = ''abc'',
      state = \<lparr>domains = [], metadata_url = '''', metadata_xml = ''<old/>'',
               attribute_mapping = '''', created_at = '''', updated_at = ''''\<rparr>,
      plan = \<lparr>domains = [], metadata_url = '''', metadata_xml = ''<new/>'',
              attribute_mapping = '''', created_at = '''', updated_at = ''''\<rparr>\<rparr>
   = Inr (zeroRequest\<lparr>IdentityProviderRequest.MetadataXML := ''<new/>''\<rparr>) \<and>
   IdentityProviderRequest.MetadataURL (zeroRequest\<lparr>IdentityProviderRequest.MetadataXML := ''<new/>''\<rparr>) = ''''"
proof -
  let ?d = "\<lparr>Id = ''abc'',
      state = \<lparr>domains = [], metadata_url = '''', metadata_xml = ''<old/>'',
               attribute_mapping = '''', created_at = '''', updated_at = ''''\<rparr>,
      plan = \<lparr>domains = [], metadata_url = '''', metadata_xml = ''<new/>'',
              attribute_mapping = '''', created_at = '''', updated_at = ''''\<rparr>\<rparr>"
  have t: "resourceIdentityProviderUpdate_template ?d =
      Inr (zeroRequest\<lparr>IdentityProviderRequest.MetadataXML := ''<new/>''\<rparr>)"
    by (simp add: resourceIdentityProviderUpdate_template_def HasChange_def HasChange_domains_def)
  show ?thesis
    using t update_metadata_exclusive [OF t] by (simp add: HasChange_def)
qed

text \<open>
  Claim C2 as stated fails: with both fields changed, to values that are not empty, the
  request carries the new URL and its metadata XML is empty; and there is no record at all
  for which both fields have changed and the request has both set.
\<close>

theorem update_both_changed_counterexample:
  "resourceIdentityProviderUpdate_template
     \<lparr>Id = ''abc'',
      state = \<lparr>domains = [], metadata_url = ''https://old.example/saml'', metadata_xml = ''<old/>'',
               attribute_mapping = '''', created_at = '''', updated_at = ''''\<rparr>,
      plan = \<lparr>domains = [], metadata_url = ''https://new.example/saml'', metadata_xml = ''<new/>'',
              attribute_mapping = '''', created_at = '''', updated_at = ''''\<rparr>\<rparr>
   = Inr (zeroRequest\<lparr>IdentityProviderRequest.MetadataURL := ''https://new.example/saml''\<rparr>) \<and>
   IdentityProviderRequest.MetadataXML
     (zeroRequest\<lparr>IdentityProviderRequest.MetadataURL := ''https://new.example/saml''\<rparr>) = '''' \<and>
   \<not> (\<exists>d t. HasChange metadata_url d \<and> HasChange metadata_xml d \<and>
          resourceIdentityProviderUpdate_template d = Inr t \<and>
          IdentityProviderRequest.MetadataURL t \<noteq> '''' \<and>
          IdentityProviderRequest.MetadataXML t \<noteq> '''')"
proof -
  have none: "\<not> (\<exists>d t. HasChange metadata_url d \<and> HasChange metadata_xml d \<and>
          resourceIdentityProviderUpdate_template d = Inr t \<and>
          IdentityProviderRequest.MetadataURL t \<noteq> '''' \<and>
          IdentityProviderRequest.MetadataXML t \<noteq> '''')"
    using update_template_fields(2) by auto
  show ?thesis
    using none
    by (simp add: resourceIdentityProviderUpdate_template_def HasChange_def HasChange_domains_def
        zeroRequest_def)
qed

text \<open>
  Claim C6. When the planned set of domains has the members of the stored set, the request
  that Update builds has no list of domains (it is nil, not an empty list), and its encoding
  has no \<open>domains\<close> member.
\<close>

theorem update_unchanged_domains_absent:
  "set (domains (state d)) = set (domains (plan d)) \<Longrightarrow>
   resourceIdentityProviderUpdate_template d = Inr t \<Longrightarrow>
     IdentityProviderRequest.Domains t = None \<and> ''domains'' \<notin> set (encodedMembers t)"
  by (simp add: update_template_fields HasChange_domains_def encodedMembers_def)

theorem update_unchanged_domains_absent_witness:
  "set (domains \<lparr>domains = [''a.com''], metadata_url = ''https://old.example/saml'', metadata_xml = '''',
               attribute_mapping = '''', created_at = '''', updated_at = ''''\<rparr>) =
   set (domains \<lparr>domains = [''a.com''], metadata_url = ''https://new.example/saml'', metadata_xml = '''',
              attribute_mapping = '''', created_at = '''', updated_at = ''''\<rparr>) \<and>
   resourceIdentityProviderUpdate_template
     \<lparr>Id = ''abc'',
      state = \<lparr>domains = [''a.com''], metadata_url = ''https://old.example/saml'', metadata_xml = '''',
               attribute_mapping = '''', created_at = '''', updated_at = ''''\<rparr>,
      plan = \<lparr>domains = [''a.com''], metadata_url = ''https://new.example/saml'', metadata_xml = '''',
              attribute_mapping = '''', created_at = '''', updated_at = ''''\<rparr>\<rparr>
   = Inr (zeroRequest\<lparr>IdentityProviderRequest.MetadataURL := ''https://new.example/saml''\<rparr>) \<and>
   IdentityProviderRequest.Domains
     (zeroRequest\<lparr>IdentityProviderRequest.MetadataURL := ''https://new.example/saml''\<rparr>) = None \<and>
   ''domains'' \<notin> set (encodedMembers
     (zeroRequest\<lparr>IdentityProviderRequest.MetadataURL := ''https://new.example/saml''\<rparr>))"
proof -
  let ?d = "\<lparr>Id = ''abc'',
      state = \<lparr>domains = [''a.com''], metadata_url = ''https://old.example/saml'', metadata_xml = '''',
               attribute_mapping = '''', created_at = '''', updated_at = ''''\<rparr>,
      plan = \<lparr>domains = [''a.com''], metadata_url = ''https://new.example/saml'', metadata_xml = '''',
              attribute_mapping = '''', created_at = '''', updated_at = ''''\<rparr>\<rparr>"
  have s: "set (domains (state ?d)) = set (domains (plan ?d))" by simp
  have t: "resourceIdentityProviderUpdate_template ?d =
      Inr (zeroRequest\<lparr>IdentityProviderRequest.MetadataURL := ''https://new.example/saml''\<rparr>)"
    by (simp add: resourceIdentityProviderUpdate_template_def HasChange_def HasChange_domains_def)
  show ?thesis
    using t update_unchanged_domains_absent [OF s t] by simp
qed

text \<open>
  For comparison: a changed set that is not empty is sent whole, and a set that has been
  emptied leaves the list nil as well, since nothing is appended to it.
\<close>

lemma update_emptied_domains_absent:
  "domains (plan d) = [] \<Longrightarrow> resourceIdentityProviderUpdate_template d = Inr t \<Longrightarrow>
     IdentityProviderRequest.Domains t = None"
  by (simp add: update_template_fields)

lemma update_changed_domains_present:
  "HasChange_domains d \<Longrightarrow> domains (plan d) \<noteq> [] \<Longrightarrow>
   resourceIdentityProviderUpdate_template d = Inr t \<Longrightarrow>
     IdentityProviderRequest.Domains t = Some (domains (plan d))"
proof -
  have "foldl append_Domains (Some xs) ys = Some (xs @ ys)" for xs ys
    by (induction ys arbitrary: xs) (simp_all add: append_Domains_def)
  then have "foldl append_Domains None ys = Some ys" if "ys \<noteq> []" for ys
    using that by (cases ys) (simp_all add: append_Domains_def)
  then show "HasChange_domains d \<Longrightarrow> domains (plan d) \<noteq> [] \<Longrightarrow>
   resourceIdentityProviderUpdate_template d = Inr t \<Longrightarrow>
     IdentityProviderRequest.Domains t = Some (domains (plan d))"
    by (simp add: update_template_fields)
qed

section \<open>Delete\<close>

lemma Delete_by_interface:
  "resourceIdentityProviderDelete m d =
     (case DeleteIdentityProvider m (Id d) of
        None \<Rightarrow> (d\<lparr>Id := ''''\<rparr>, [])
      | Some err \<Rightarrow> (d, FromErr err))"
  by (simp add: resourceIdentityProviderDelete_def split: option.splits)

lemma client_Delete_cases:
  assumes "DeleteIdentityProvider_request lib c pid st = Inr (req, st1)"
  shows "fst (client_DeleteIdentityProvider lib c pid st) =
           (case fst (Do c req st1) of
              Inl err \<Rightarrow> Some err
            | Inr res \<Rightarrow>
                (if StatusCode res \<noteq> 200
                 then Some (parseError res 200
                        (Sprintf ''deleting identity provider with ID %q'' [ArgString pid]))
                 else None))"
  using assms
  by (cases "Do c req st1") (auto simp: client_DeleteIdentityProvider_def split: sum.splits)

text \<open>
  Claim C7. Delete through the admin client either clears the identifier of the record and
  changes nothing else (the transport answered with status 200), or returns the record as
  it was together with one error diagnostic: when the request could not be built, when the
  transport failed, and when the status was not 200.
\<close>

theorem delete_all_or_nothing:
  "(\<forall>err. DeleteIdentityProvider_request lib c (Id d) st = Inl err \<longrightarrow>
      resourceIdentityProviderDelete (asClient lib c st) d = (d, FromErr err)) \<and>
   (\<forall>req st1. DeleteIdentityProvider_request lib c (Id d) st = Inr (req, st1) \<longrightarrow>
      (\<forall>err. fst (Do c req st1) = Inl err \<longrightarrow>
         resourceIdentityProviderDelete (asClient lib c st) d = (d, FromErr err)) \<and>
      (\<forall>res. fst (Do c req st1) = Inr res \<and> StatusCode res \<noteq> 200 \<longrightarrow>
         resourceIdentityProviderDelete (asClient lib c st) d =
           (d, FromErr (parseError res 200
                 (Sprintf ''deleting identity provider with ID %q'' [ArgString (Id d)])))) \<and>
      (\<forall>res. fst (Do c req st1) = Inr res \<and> StatusCode res = 200 \<longrightarrow>
         resourceIdentityProviderDelete (asClient lib c st) d = (d\<lparr>Id := ''''\<rparr>, [])))"
proof -
  have a: "resourceIdentityProviderDelete (asClient lib c st) d = (d, FromErr err)"
    if "DeleteIdentityProvider_request lib c (Id d) st = Inl err" for err
    using that by (simp add: Delete_by_interface asClient_def client_DeleteIdentityProvider_def)
  have b: "resourceIdentityProviderDelete (asClient lib c st) d =
      (case fst (Do c req st1) of
         Inl err \<Rightarrow> (d, FromErr err)
       | Inr res \<Rightarrow>
           (if StatusCode res \<noteq> 200
            then (d, FromErr (parseError res 200
                   (Sprintf ''deleting identity provider with ID %q'' [ArgString (Id d)])))
            else (d\<lparr>Id := ''''\<rparr>, [])))"
    if "DeleteIdentityProvider_request lib c (Id d) st = Inr (req, st1)" for req st1
    using client_Delete_cases [OF that]
    by (simp add: Delete_by_interface asClient_def split: sum.splits)
  show ?thesis
    using a b by simp
qed

lemma example_Delete_request:
  "DeleteIdentityProvider_request exampleLibrary (exampleClient t) (Id exampleRecord) exampleStore =
     Inr (exampleDelete, exampleStore @ exampleStore)"
  by (simp add: DeleteIdentityProvider_request_def exampleLibrary_def exampleClient_def
      exampleRecord_def exampleStore_def exampleDelete_def providerPath_def Clone_def)

lemma example_Do:
  "fst (Do (exampleClient t) exampleDelete (exampleStore @ exampleStore)) =
     fst (t exampleDelete [''Authorization'' \<mapsto> [''Bearer token'']])"
  by (simp add: Do_def exampleClient_def exampleDelete_def exampleStore_def)

theorem delete_all_or_nothing_witness:
  "DeleteIdentityProvider_request exampleLibrary (exampleClient (answering 200 [])) (Id exampleRecord)
       exampleStore = Inr (exampleDelete, exampleStore @ exampleStore) \<and>
   fst (Do (exampleClient (answering 200 [])) exampleDelete (exampleStore @ exampleStore)) =
       Inr \<lparr>StatusCode = 200, Body = Inr []\<rparr> \<and>
   resourceIdentityProviderDelete
       (asClient exampleLibrary (exampleClient (answering 200 [])) exampleStore) exampleRecord =
     (exampleRecord\<lparr>Id := []\<rparr>, []) \<and>
   fst (Do (exampleClient (answering 404 ''not found'')) exampleDelete (exampleStore @ exampleStore)) =
       Inr \<lparr>StatusCode = 404, Body = Inr ''not found''\<rparr> \<and>
   resourceIdentityProviderDelete
       (asClient exampleLibrary (exampleClient (answering 404 ''not found'')) exampleStore) exampleRecord =
     (exampleRecord,
      FromErr (parseError \<lparr>StatusCode = 404, Body = Inr ''not found''\<rparr> 200
        (Sprintf ''deleting identity provider with ID %q'' [ArgString ''abc'']))) \<and>
   fst (Do (exampleClient failing) exampleDelete (exampleStore @ exampleStore)) =
       Inl (Opaque ''connection refused'') \<and>
   resourceIdentityProviderDelete
       (asClient exampleLibrary (exampleClient failing) exampleStore) exampleRecord =
     (exampleRecord, FromErr (Opaque ''connection refused''))"
proof -
  have ok: "fst (Do (exampleClient (answering 200 [])) exampleDelete (exampleStore @ exampleStore)) =
      Inr \<lparr>StatusCode = 200, Body = Inr []\<rparr>"
    by (simp add: example_Do answering_def)
  have nf: "fst (Do (exampleClient (answering 404 ''not found'')) exampleDelete (exampleStore @ exampleStore)) =
      Inr \<lparr>StatusCode = 404, Body = Inr ''not found''\<rparr>"
    by (simp add: example_Do answering_def)
  have tf: "fst (Do (exampleClient failing) exampleDelete (exampleStore @ exampleStore)) =
      Inl (Opaque ''connection refused'')"
    by (simp add: example_Do failing_def)
  have i: "Id exampleRecord = ''abc''" by (simp add: exampleRecord_def)
  show ?thesis
    using delete_all_or_nothing [of exampleLibrary "exampleClient (answering 200 [])" exampleRecord exampleStore]
      delete_all_or_nothing [of exampleLibrary "exampleClient (answering 404 ''not found'')" exampleRecord exampleStore]
      delete_all_or_nothing [of exampleLibrary "exampleClient failing" exampleRecord exampleStore]
      example_Delete_request ok nf tf i
    by simp
qed

section \<open>Synchronization: the set of domains\<close>

lemma foldl_collect_domains:
  "foldl (\<lambda>ds domain. ds @ [Domain domain]) acc xs = acc @ map Domain xs"
  by (induction xs arbitrary: acc) simp_all




lemma Set_domains:
  "domains (plan (fst (resourceIdentityProviderSet hst provider d))) =
     foldl (\<lambda>s domain. Set_Add domain s) NewSet
       (sort (map Domain (IdentityProviderResponse.Domains provider)))"
  by (simp add: resourceIdentityProviderSet_def Let_def foldl_collect_domains split: sum.splits)


lemma Set_domains_example:
  "domains (plan (fst (resourceIdentityProviderSet hst
      \<lparr>ID = ''abc'', ResourceID = '''',
       Domains = [\<lparr>Domain = ''b.com''\<rparr>, \<lparr>Domain = ''a.com''\<rparr>, \<lparr>Domain = ''b.com''\<rparr>],
       SAML = \<lparr>MetadataXML = '''', MetadataURL = ''https://idp.example/saml'',
               AttributeMapping = zeroAttributeMapping\<rparr>,
       CreatedAt = 0, UpdatedAt = 0\<rparr> exampleRecord))) = [''a.com'', ''b.com'']"
  unfolding Set_domains by (simp add: NewSet_def Set_Add_def)

section \<open>The default headers of the client\<close>

lemma Clone_Some:
  "Clone (Some a) st = (Some (length st), st @ [st ! a])"
  by (simp add: Clone_def)

lemma Do_keeps:
  assumes "Header req = Some b" "a \<noteq> b"
  shows "snd (Do c req st) ! a = st ! a" and "length (snd (Do c req st)) = length st"
  using assms by (auto simp: Do_def split: option.splits)

lemma Get_request_clone:
  assumes "Headers c = Some a" "a < length st"
    "GetIdentityProvider_request lib c pid st = Inr (req, st1)"
  shows "Header req = Some (length st) \<and> st1 = st @ [st ! a]"
  using assms
  by (auto simp: GetIdentityProvider_request_def Clone_def Let_def split: option.splits)

lemma Delete_request_clone:
  assumes "Headers c = Some a" "a < length st"
    "DeleteIdentityProvider_request lib c pid st = Inr (req, st1)"
  shows "Header req = Some (length st) \<and> st1 = st @ [st ! a]"
  using assms
  by (auto simp: DeleteIdentityProvider_request_def Clone_def Let_def split: option.splits)

lemma Create_request_clone:
  assumes "Headers c = Some a" "a < length st"
    "CreateIdentityProvider_request lib c template st = Inr (req, st1)"
  shows "Header req = Some (length st) \<and>
         st1 = st @ [Header_Add ''Content-Type'' ''application/json'' (st ! a)]"
  using assms
  by (auto simp: CreateIdentityProvider_request_def Clone_def Let_def addContentType_def
      split: option.splits sum.splits)

lemma Update_request_clone:
  assumes "Headers c = Some a" "a < length st"
    "UpdateIdentityProvider_request lib c pid template st = Inr (req, st1)"
  shows "Header req = Some (length st) \<and>
         st1 = st @ [Header_Add ''Content-Type'' ''application/json'' (st ! a)]"
  using assms
  by (auto simp: UpdateIdentityProvider_request_def Clone_def Let_def addContentType_def
      split: option.splits sum.splits)

lemma Get_keeps:
  assumes "Headers c = Some a" "a < length st"
  shows "snd (client_GetIdentityProvider lib c pid st) ! a = st ! a"
proof (cases "GetIdentityProvider_request lib c pid st")
  case (Inl err)
  then show ?thesis by (simp add: client_GetIdentityProvider_def)
next
  case (Inr r)
  obtain req st1 where r: "r = (req, st1)" by (cases r)
  have h: "Header req = Some (length st)" "st1 = st @ [st ! a]"
    using Get_request_clone [OF assms] Inr r by auto
  have "snd (Do c req st1) ! a = st1 ! a"
    using h(1) assms(2) by (intro Do_keeps(1)) auto
  moreover have "snd (client_GetIdentityProvider lib c pid st) = snd (Do c req st1)"
    using Inr r by (cases "Do c req st1") (auto simp: client_GetIdentityProvider_def split: sum.splits)
  ultimately show ?thesis using h(2) assms(2) by (simp add: nth_append)
qed

lemma Delete_keeps:
  assumes "Headers c = Some a" "a < length st"
  shows "snd (client_DeleteIdentityProvider lib c pid st) ! a = st ! a"
proof (cases "DeleteIdentityProvider_request lib c pid st")
  case (Inl err)
  then show ?thesis by (simp add: client_DeleteIdentityProvider_def)
next
  case (Inr r)
  obtain req st1 where r: "r = (req, st1)" by (cases r)
  have h: "Header req = Some (length st)" "st1 = st @ [st ! a]"
    using Delete_request_clone [OF assms] Inr r by auto
  have "snd (Do c req st1) ! a = st1 ! a"
    using h(1) assms(2) by (intro Do_keeps(1)) auto
  moreover have "snd (client_DeleteIdentityProvider lib c pid st) = snd (Do c req st1)"
    using Inr r by (cases "Do c req st1") (auto simp: client_DeleteIdentityProvider_def split: sum.splits)
  ultimately show ?thesis using h(2) assms(2) by (simp add: nth_append)
qed

lemma Create_keeps:
  assumes "Headers c = Some a" "a < length st"
  shows "snd (client_CreateIdentityProvider lib c template st) ! a = st ! a"
proof (cases "CreateIdentityProvider_request lib c template st")
  case (Inl err)
  then show ?thesis by (simp add: client_CreateIdentityProvider_def)
next
  case (Inr r)
  obtain req st1 where r: "r = (req, st1)" by (cases r)
  have h: "Header req = Some (length st)"
    "st1 = st @ [Header_Add ''Content-Type'' ''application/json'' (st ! a)]"
    using Create_request_clone [OF assms] Inr r by auto
  have "snd (Do c req st1) ! a = st1 ! a"
    using h(1) assms(2) by (intro Do_keeps(1)) auto
  moreover have "snd (client_CreateIdentityProvider lib c template st) = snd (Do c req st1)"
    using Inr r by (cases "Do c req st1") (auto simp: client_CreateIdentityProvider_def split: sum.splits)
  ultimately show ?thesis using h(2) assms(2) by (simp add: nth_append)
qed

lemma Update_keeps:
  assumes "Headers c = Some a" "a < length st"
  shows "snd (client_UpdateIdentityProvider lib c pid template st) ! a = st ! a"
proof (cases "UpdateIdentityProvider_request lib c pid template st")
  case (Inl err)
  then show ?thesis by (simp add: client_UpdateIdentityProvider_def)
next
  case (Inr r)
  obtain req st1 where r: "r = (req, st1)" by (cases r)
  have h: "Header req = Some (length st)"
    "st1 = st @ [Header_Add ''Content-Type'' ''application/json'' (st ! a)]"
    using Update_request_clone [OF assms] Inr r by auto
  have "snd (Do c req st1) ! a = st1 ! a"
    using h(1) assms(2) by (intro Do_keeps(1)) auto
  moreover have "snd (client_UpdateIdentityProvider lib c pid template st) = snd (Do c req st1)"
    using Inr r by (cases "Do c req st1") (auto simp: client_UpdateIdentityProvider_def split: sum.splits)
  ultimately show ?thesis using h(2) assms(2) by (simp add: nth_append)
qed

lemma WithHeaders_copies:
  assumes "h < length st"
  shows "Headers (fst (WithHeaders (Some h) (c, st))) = Some (length st)"
    and "snd (WithHeaders (Some h) (c, st)) ! length st = st ! h"
    and "(snd (WithHeaders (Some h) (c, st))) [h := changed] ! length st = st ! h"
    and "snd (WithHeaders (Some h) (c, st)) ! h = st ! h"
  using assms by (simp_all add: WithHeaders_def Clone_def nth_append)

lemma Header_Add_differs: "Header_Add k v hdr \<noteq> hdr"
proof
  assume "Header_Add k v hdr = hdr"
  then have "Header_Add k v hdr k = hdr k" by simp
  then show False by (cases "hdr k") (simp_all add: Header_Add_def)
qed

lemma New_for_provider:
  assumes "h < length st"
  shows "Headers (fst (New lib [WithBaseURL url, WithHeaders (Some h)] st)) = Some (length st)"
    and "snd (New lib [WithBaseURL url, WithHeaders (Some h)] st) = st @ [st ! h]"
  using assms
  by (simp_all add: New_def WithBaseURL_def WithHeaders_def Clone_def zeroClient_def Let_def)

text \<open>
  Claim C9. Let the default headers of a client be the map at \<open>a\<close> of the store. After
  each of the four operations the store holds at \<open>a\<close> what it held before, whatever the
  library and the transport do, also when the transport changes the headers of the request
  it is given. The request of each operation refers to a map that did not exist before
  (the next free place of the store); for Get and Delete it holds a copy of the defaults,
  for Create and Update the copy with \<open>application/json\<close> added to \<open>Content-Type\<close>, which
  differs from the defaults. \<open>WithHeaders\<close> gives the client a new map with the contents of
  the caller's map; a later change of the caller's map does not reach it.
\<close>

theorem default_headers_untouched:
  "Headers c = Some a \<Longrightarrow> a < length st \<Longrightarrow>
     snd (client_GetIdentityProvider lib c pid st) ! a = st ! a \<and>
     snd (client_CreateIdentityProvider lib c template st) ! a = st ! a \<and>
     snd (client_UpdateIdentityProvider lib c pid template st) ! a = st ! a \<and>
     snd (client_DeleteIdentityProvider lib c pid st) ! a = st ! a \<and>
     (\<forall>req st1. GetIdentityProvider_request lib c pid st = Inr (req, st1) \<longrightarrow>
        Header req = Some (length st) \<and> Header req \<noteq> Headers c \<and>
        st1 ! length st = st ! a \<and> st1 ! a = st ! a) \<and>
     (\<forall>req st1. DeleteIdentityProvider_request lib c pid st = Inr (req, st1) \<longrightarrow>
        Header req = Some (length st) \<and> Header req \<noteq> Headers c \<and>
        st1 ! length st = st ! a \<and> st1 ! a = st ! a) \<and>
     (\<forall>req st1. CreateIdentityProvider_request lib c template st = Inr (req, st1) \<longrightarrow>
        Header req = Some (length st) \<and> Header req \<noteq> Headers c \<and>
        st1 ! length st = Header_Add ''Content-Type'' ''application/json'' (st ! a) \<and>
        st1 ! length st \<noteq> st1 ! a \<and> st1 ! a = st ! a) \<and>
     (\<forall>req st1. UpdateIdentityProvider_request lib c pid template st = Inr (req, st1) \<longrightarrow>
        Header req = Some (length st) \<and> Header req \<noteq> Headers c \<and>
        st1 ! length st = Header_Add ''Content-Type'' ''application/json'' (st ! a) \<and>
        st1 ! length st \<noteq> st1 ! a \<and> st1 ! a = st ! a) \<and>
     (\<forall>c0 changed. Headers (fst (WithHeaders (Some a) (c0, st))) = Some (length st) \<and>
        snd (WithHeaders (Some a) (c0, st)) ! length st = st ! a \<and>
        (snd (WithHeaders (Some a) (c0, st))) [a := changed] ! length st = st ! a)"
proof -
  assume c: "Headers c = Some a" and a: "a < length st"
  have g: "Header req = Some (length st) \<and> Header req \<noteq> Headers c \<and>
        st1 ! length st = st ! a \<and> st1 ! a = st ! a"
    if "GetIdentityProvider_request lib c pid st = Inr (req, st1)" for req st1
    using Get_request_clone [OF c a that] c a by (auto simp: nth_append)
  have d: "Header req = Some (length st) \<and> Header req \<noteq> Headers c \<and>
        st1 ! length st = st ! a \<and> st1 ! a = st ! a"
    if "DeleteIdentityProvider_request lib c pid st = Inr (req, st1)" for req st1
    using Delete_request_clone [OF c a that] c a by (auto simp: nth_append)
  have cr: "Header req = Some (length st) \<and> Header req \<noteq> Headers c \<and>
        st1 ! length st = Header_Add ''Content-Type'' ''application/json'' (st ! a) \<and>
        st1 ! length st \<noteq> st1 ! a \<and> st1 ! a = st ! a"
    if "CreateIdentityProvider_request lib c template st = Inr (req, st1)" for req st1
    using Create_request_clone [OF c a that] c a by (auto simp: nth_append Header_Add_differs)
  have u: "Header req = Some (length st) \<and> Header req \<noteq> Headers c \<and>
        st1 ! length st = Header_Add ''Content-Type'' ''application/json'' (st ! a) \<and>
        st1 ! length st \<noteq> st1 ! a \<and> st1 ! a = st ! a"
    if "UpdateIdentityProvider_request lib c pid template st = Inr (req, st1)" for req st1
    using Update_request_clone [OF c a that] c a by (auto simp: nth_append Header_Add_differs)
  have w: "Headers (fst (WithHeaders (Some a) (c0, st))) = Some (length st) \<and>
        snd (WithHeaders (Some a) (c0, st)) ! length st = st ! a \<and>
        (snd (WithHeaders (Some a) (c0, st))) [a := changed] ! length st = st ! a" for c0 changed
    using WithHeaders_copies(1,2,3) [OF a] by blast
  have k: "snd (client_GetIdentityProvider lib c pid st) ! a = st ! a \<and>
     snd (client_CreateIdentityProvider lib c template st) ! a = st ! a \<and>
     snd (client_UpdateIdentityProvider lib c pid template st) ! a = st ! a \<and>
     snd (client_DeleteIdentityProvider lib c pid st) ! a = st ! a"
    using Get_keeps [OF c a] Create_keeps [OF c a] Update_keeps [OF c a] Delete_keeps [OF c a]
    by blast
  show ?thesis
    using g d cr u w k by blast
qed

lemma example_Create_request:
  "CreateIdentityProvider_request exampleLibrary (exampleClient t) zeroRequest exampleStore =
     Inr (examplePost,
          exampleStore @ [Header_Add ''Content-Type'' ''application/json'' (exampleStore ! 0)])"
  by (simp add: CreateIdentityProvider_request_def exampleLibrary_def exampleClient_def
      exampleStore_def examplePost_def providerPath_def Clone_def addContentType_def)

theorem default_headers_untouched_witness:
  "Headers (exampleClient tampering) = Some 0 \<and> 0 < length exampleStore \<and>
   CreateIdentityProvider_request exampleLibrary (exampleClient tampering) zeroRequest exampleStore =
     Inr (examplePost,
          exampleStore @ [Header_Add ''Content-Type'' ''application/json'' (exampleStore ! 0)]) \<and>
   Header examplePost = Some 1 \<and>
   snd (client_CreateIdentityProvider exampleLibrary (exampleClient tampering) zeroRequest exampleStore) ! 0
     = exampleStore ! 0 \<and>
   snd (client_GetIdentityProvider exampleLibrary (exampleClient tampering) ''abc'' exampleStore) ! 0
     = exampleStore ! 0 \<and>
   snd (client_UpdateIdentityProvider exampleLibrary (exampleClient tampering) ''abc'' zeroRequest
          exampleStore) ! 0 = exampleStore ! 0 \<and>
   snd (client_DeleteIdentityProvider exampleLibrary (exampleClient tampering) ''abc'' exampleStore) ! 0
     = exampleStore ! 0 \<and>
   (snd (client_CreateIdentityProvider exampleLibrary (exampleClient tampering) zeroRequest exampleStore) ! 1)
     ''Cookie'' = Some [''session=1''] \<and>
   (snd (client_CreateIdentityProvider exampleLibrary (exampleClient tampering) zeroRequest exampleStore) ! 1)
     ''Content-Type'' = Some [''application/json''] \<and>
   (exampleStore ! 0) ''Content-Type'' = None \<and> (exampleStore ! 0) ''Cookie'' = None"
proof -
  have c: "Headers (exampleClient tampering) = Some 0" by (simp add: exampleClient_def)
  have a: "0 < length exampleStore" by (simp add: exampleStore_def)
  have s: "snd (client_CreateIdentityProvider exampleLibrary (exampleClient tampering) zeroRequest
              exampleStore) =
      [exampleStore ! 0,
       (Header_Add ''Content-Type'' ''application/json'' (exampleStore ! 0))
         (''Cookie'' \<mapsto> [''session=1''])]"
    unfolding client_CreateIdentityProvider_def example_Create_request
    by (simp add: Do_def exampleClient_def examplePost_def tampering_def exampleStore_def)
  have k1: "(snd (client_CreateIdentityProvider exampleLibrary (exampleClient tampering) zeroRequest
               exampleStore) ! 1) ''Cookie'' = Some [''session=1'']"
    unfolding s by simp
  have k2: "(snd (client_CreateIdentityProvider exampleLibrary (exampleClient tampering) zeroRequest
               exampleStore) ! 1) ''Content-Type'' = Some [''application/json'']"
    unfolding s by (simp add: Header_Add_def exampleStore_def)
  have k3: "(exampleStore ! 0) ''Content-Type'' = None" "(exampleStore ! 0) ''Cookie'' = None"
    by (simp_all add: exampleStore_def)
  have p: "Header examplePost = Some 1" by (simp add: examplePost_def)
  show ?thesis
    using default_headers_untouched [OF c a, of exampleLibrary "''abc''" zeroRequest]
      example_Create_request [of tampering] c a k1 k2 k3 p
    by simp
qed

section \<open>The error of an unexpected status\<close>

lemma snd_storeInt: "snd (storeInt v c) = fitsInt v"
  unfolding fitsInt_def by (cases v) (auto split: option.splits)

lemma snd_storeString: "snd (storeString v s) = fitsString v"
  unfolding fitsString_def by (cases v) auto

lemma memberValues_Nil [simp]: "memberValues name [] = []"
  by (simp add: memberValues_def)

lemma memberValues_Cons:
  "memberValues name (m # ms) =
     (if foldName (fst m) = name then snd m # memberValues name ms else memberValues name ms)"
  by (simp add: memberValues_def)

lemma storeErrorMember_fields:
  "Op (fst (storeErrorMember eo m)) = Op (fst eo)"
  "Expected (fst (storeErrorMember eo m)) = Expected (fst eo)"
  "Code (fst (storeErrorMember eo m)) =
     (if foldName (fst m) = ''CODE'' then fst (storeInt (snd m) (Code (fst eo))) else Code (fst eo))"
  "Message (fst (storeErrorMember eo m)) =
     (if foldName (fst m) = ''MSG'' then fst (storeString (snd m) (Message (fst eo)))
      else Message (fst eo))"
  "ErrorID (fst (storeErrorMember eo m)) =
     (if foldName (fst m) = ''ERROR_ID'' then fst (storeString (snd m) (ErrorID (fst eo)))
      else ErrorID (fst eo))"
  "snd (storeErrorMember eo m) =
     (snd eo \<and> (foldName (fst m) = ''CODE'' \<longrightarrow> fitsInt (snd m))
        \<and> (foldName (fst m) = ''MSG'' \<longrightarrow> fitsString (snd m))
        \<and> (foldName (fst m) = ''ERROR_ID'' \<longrightarrow> fitsString (snd m)))"
  by (simp_all add: storeErrorMember_def Let_def snd_storeInt snd_storeString)

lemma foldl_storeErrorMember:
  "Op (fst (foldl storeErrorMember eo ms)) = Op (fst eo) \<and>
   Expected (fst (foldl storeErrorMember eo ms)) = Expected (fst eo) \<and>
   Code (fst (foldl storeErrorMember eo ms)) =
     foldl (\<lambda>c v. fst (storeInt v c)) (Code (fst eo)) (memberValues ''CODE'' ms) \<and>
   Message (fst (foldl storeErrorMember eo ms)) =
     foldl (\<lambda>s v. fst (storeString v s)) (Message (fst eo)) (memberValues ''MSG'' ms) \<and>
   ErrorID (fst (foldl storeErrorMember eo ms)) =
     foldl (\<lambda>s v. fst (storeString v s)) (ErrorID (fst eo)) (memberValues ''ERROR_ID'' ms) \<and>
   snd (foldl storeErrorMember eo ms) =
     (snd eo \<and> list_all fitsInt (memberValues ''CODE'' ms)
        \<and> list_all fitsString (memberValues ''MSG'' ms)
        \<and> list_all fitsString (memberValues ''ERROR_ID'' ms))"
proof (induction ms arbitrary: eo)
  case Nil
  show ?case by simp
next
  case (Cons m ms)
  show ?case
    using Cons.IH [of "storeErrorMember eo m"]
    by (simp add: storeErrorMember_fields memberValues_Cons) blast
qed

lemma Get_unexpected:
  assumes "GetIdentityProvider_request lib c pid st = Inr (req, st1)"
    "Do c req st1 = (Inr res, st2)" "StatusCode res \<noteq> 200"
  shows "fst (client_GetIdentityProvider lib c pid st) =
           Inl (parseError res 200 (Sprintf ''fetching identity provider with id %q'' [ArgString pid]))"
  using assms by (simp add: client_GetIdentityProvider_def)

lemma Create_unexpected:
  assumes "CreateIdentityProvider_request lib c template st = Inr (req, st1)"
    "Do c req st1 = (Inr res, st2)" "StatusCode res \<noteq> 201"
  shows "fst (client_CreateIdentityProvider lib c template st) =
           Inl (parseError res 201 (Text ''creating new identity provider''))"
  using assms by (simp add: client_CreateIdentityProvider_def)

lemma Update_unexpected:
  assumes "UpdateIdentityProvider_request lib c pid template st = Inr (req, st1)"
    "Do c req st1 = (Inr res, st2)" "StatusCode res \<noteq> 200"
  shows "fst (client_UpdateIdentityProvider lib c pid template st) =
           Inl (parseError res 200 (Sprintf ''updating identity provider with ID %q'' [ArgString pid]))"
  using assms by (simp add: client_UpdateIdentityProvider_def)

lemma Delete_unexpected:
  assumes "DeleteIdentityProvider_request lib c pid st = Inr (req, st1)"
    "Do c req st1 = (Inr res, st2)" "StatusCode res \<noteq> 200"
  shows "fst (client_DeleteIdentityProvider lib c pid st) =
           Some (parseError res 200 (Sprintf ''deleting identity provider with ID %q'' [ArgString pid]))"
  using assms by (simp add: client_DeleteIdentityProvider_def)

lemma parseError_unreadable:
  "Response.Body res = Inl err \<Longrightarrow> parseError res expected op = err"
  by (simp add: parseError_def)

lemma parseError_not_JSON:
  assumes "Response.Body res = Inr body" "parseJSON body = None"
  shows "parseError res expected op =
           API \<lparr>Op = op, Expected = expected, Code = StatusCode res, Message = body, ErrorID = []\<rparr>"
  using assms by (simp add: parseError_def Unmarshal_Error_def)

lemma parseError_null:
  assumes "Response.Body res = Inr body" "parseJSON body = Some JNull"
  shows "parseError res expected op =
           API \<lparr>Op = op, Expected = expected, Code = StatusCode res, Message = [], ErrorID = []\<rparr>"
  using assms by (simp add: parseError_def Unmarshal_Error_def)

lemma parseError_other:
  assumes "Response.Body res = Inr body" "parseJSON body = Some v" "v \<noteq> JNull"
    "\<forall>ms. v \<noteq> JObject ms"
  shows "parseError res expected op =
           API \<lparr>Op = op, Expected = expected, Code = StatusCode res, Message = body, ErrorID = []\<rparr>"
  using assms by (cases v) (simp_all add: parseError_def Unmarshal_Error_def)

lemma parseError_object:
  assumes "Response.Body res = Inr body" "parseJSON body = Some (JObject ms)"
  shows "\<exists>e. parseError res expected op = API e \<and> Op e = op \<and> Expected e = expected \<and>
           Code e = foldl (\<lambda>c v. fst (storeInt v c)) (StatusCode res) (memberValues ''CODE'' ms) \<and>
           Message e =
             (if fitsError ms
              then foldl (\<lambda>s v. fst (storeString v s)) [] (memberValues ''MSG'' ms)
              else body)"
proof -
  let ?e0 = "\<lparr>Op = op, Expected = expected, Code = StatusCode res, Message = [], ErrorID = []\<rparr>"
  let ?r = "foldl storeErrorMember (?e0, True) ms"
  have u: "Unmarshal_Error body ?e0 = (fst ?r, if snd ?r then None else Some UnmarshalTypeError)"
    using assms(2) by (simp add: Unmarshal_Error_def Let_def)
  have p: "parseError res expected op = API (if snd ?r then fst ?r else (fst ?r)\<lparr>Message := body\<rparr>)"
    using assms(1) u by (simp add: parseError_def Let_def)
  have f: "snd ?r = fitsError ms"
    using foldl_storeErrorMember [of "(?e0, True)" ms] by (simp add: fitsError_def)
  show ?thesis
    using foldl_storeErrorMember [of "(?e0, True)" ms] p f by auto
qed

text \<open>
  Claim C3, as the code has it. An operation that gets a status other than the one it
  expects returns what \<open>parseError\<close> makes of the response, with its own description and
  expected status. When the body cannot be read, that is the error of the read. Otherwise it
  is an API error that carries the description and the expected status. Its code is the
  status of the response, unless the body is a JSON object with members named \<open>code\<close>: then
  the integers among them are stored over it, in the order of the text. Its message is the
  text of the body when the body is not JSON, is JSON of another kind than an object or
  \<open>null\<close>, or is an object in which a \<open>code\<close>, \<open>msg\<close> or \<open>error_id\<close> member has a value of the
  wrong kind; otherwise it is the last string among the \<open>msg\<close> members, and empty when
  there is none.
\<close>

theorem unexpected_status_error:
  "(GetIdentityProvider_request lib c pid st = Inr (req, st1) \<and> Do c req st1 = (Inr res, st2)
      \<and> StatusCode res \<noteq> 200 \<longrightarrow>
      fst (client_GetIdentityProvider lib c pid st) =
        Inl (parseError res 200 (Sprintf ''fetching identity provider with id %q'' [ArgString pid]))) \<and>
   (CreateIdentityProvider_request lib c template st = Inr (req, st1) \<and> Do c req st1 = (Inr res, st2)
      \<and> StatusCode res \<noteq> 201 \<longrightarrow>
      fst (client_CreateIdentityProvider lib c template st) =
        Inl (parseError res 201 (Text ''creating new identity provider''))) \<and>
   (UpdateIdentityProvider_request lib c pid template st = Inr (req, st1) \<and> Do c req st1 = (Inr res, st2)
      \<and> StatusCode res \<noteq> 200 \<longrightarrow>
      fst (client_UpdateIdentityProvider lib c pid template st) =
        Inl (parseError res 200 (Sprintf ''updating identity provider with ID %q'' [ArgString pid]))) \<and>
   (DeleteIdentityProvider_request lib c pid st = Inr (req, st1) \<and> Do c req st1 = (Inr res, st2)
      \<and> StatusCode res \<noteq> 200 \<longrightarrow>
      fst (client_DeleteIdentityProvider lib c pid st) =
        Some (parseError res 200 (Sprintf ''deleting identity provider with ID %q'' [ArgString pid]))) \<and>
   (\<forall>err. Response.Body res = Inl err \<longrightarrow> parseError res expected op = err) \<and>
   (\<forall>body. Response.Body res = Inr body \<longrightarrow>
      (case parseError res expected op of
         API e \<Rightarrow>
           Op e = op \<and> Expected e = expected \<and>
           (case parseJSON body of
              None \<Rightarrow> Code e = StatusCode res \<and> Message e = body
            | Some JNull \<Rightarrow> Code e = StatusCode res \<and> Message e = []
            | Some (JObject ms) \<Rightarrow>
                Code e = foldl (\<lambda>c v. fst (storeInt v c)) (StatusCode res) (memberValues ''CODE'' ms) \<and>
                Message e =
                  (if fitsError ms
                   then foldl (\<lambda>s v. fst (storeString v s)) [] (memberValues ''MSG'' ms)
                   else body)
            | Some v \<Rightarrow> Code e = StatusCode res \<and> Message e = body)
       | other \<Rightarrow> False))"
proof -
  have p: "case parseError res expected op of
         API e \<Rightarrow>
           Op e = op \<and> Expected e = expected \<and>
           (case parseJSON body of
              None \<Rightarrow> Code e = StatusCode res \<and> Message e = body
            | Some JNull \<Rightarrow> Code e = StatusCode res \<and> Message e = []
            | Some (JObject ms) \<Rightarrow>
                Code e = foldl (\<lambda>c v. fst (storeInt v c)) (StatusCode res) (memberValues ''CODE'' ms) \<and>
                Message e =
                  (if fitsError ms
                   then foldl (\<lambda>s v. fst (storeString v s)) [] (memberValues ''MSG'' ms)
                   else body)
            | Some v \<Rightarrow> Code e = StatusCode res \<and> Message e = body)
       | other \<Rightarrow> False"
    if b: "Response.Body res = Inr body" for body
  proof (cases "parseJSON body")
    case None
    then show ?thesis using parseError_not_JSON [OF b None, of expected op] by simp
  next
    case (Some v)
    show ?thesis
    proof (cases v)
      case JNull
      then show ?thesis using parseError_null [OF b, of expected op] Some by simp
    next
      case (JObject ms)
      then obtain e where "parseError res expected op = API e" "Op e = op" "Expected e = expected"
        "Code e = foldl (\<lambda>c v. fst (storeInt v c)) (StatusCode res) (memberValues ''CODE'' ms)"
        "Message e =
             (if fitsError ms
              then foldl (\<lambda>s v. fst (storeString v s)) [] (memberValues ''MSG'' ms)
              else body)"
        using parseError_object [OF b, of ms expected op] Some by auto
      then show ?thesis using Some JObject by simp
    qed (use parseError_other [OF b Some, of expected op] Some in simp_all)
  qed
  have g: "GetIdentityProvider_request lib c pid st = Inr (req, st1) \<and> Do c req st1 = (Inr res, st2)
      \<and> StatusCode res \<noteq> 200 \<longrightarrow>
      fst (client_GetIdentityProvider lib c pid st) =
        Inl (parseError res 200 (Sprintf ''fetching identity provider with id %q'' [ArgString pid]))"
    using Get_unexpected by blast
  have cr: "CreateIdentityProvider_request lib c template st = Inr (req, st1) \<and> Do c req st1 = (Inr res, st2)
      \<and> StatusCode res \<noteq> 201 \<longrightarrow>
      fst (client_CreateIdentityProvider lib c template st) =
        Inl (parseError res 201 (Text ''creating new identity provider''))"
    using Create_unexpected by blast
  have u: "UpdateIdentityProvider_request lib c pid template st = Inr (req, st1) \<and> Do c req st1 = (Inr res, st2)
      \<and> StatusCode res \<noteq> 200 \<longrightarrow>
      fst (client_UpdateIdentityProvider lib c pid template st) =
        Inl (parseError res 200 (Sprintf ''updating identity provider with ID %q'' [ArgString pid]))"
    using Update_unexpected by blast
  have d: "DeleteIdentityProvider_request lib c pid st = Inr (req, st1) \<and> Do c req st1 = (Inr res, st2)
      \<and> StatusCode res \<noteq> 200 \<longrightarrow>
      fst (client_DeleteIdentityProvider lib c pid st) =
        Some (parseError res 200 (Sprintf ''deleting identity provider with ID %q'' [ArgString pid]))"
    using Delete_unexpected by blast
  have r: "\<forall>err. Response.Body res = Inl err \<longrightarrow> parseError res expected op = err"
    using parseError_unreadable by blast
  show ?thesis
    by (intro conjI g cr u d r allI impI p)
qed

lemma example_Create_answer:
  "Do (exampleClient (answering status body)) examplePost
       (exampleStore @ [Header_Add ''Content-Type'' ''application/json'' (exampleStore ! 0)]) =
     (Inr \<lparr>StatusCode = status, Body = Inr body\<rparr>,
      exampleStore @ [Header_Add ''Content-Type'' ''application/json'' (exampleStore ! 0)])"
  by (simp add: Do_def exampleClient_def examplePost_def answering_def exampleStore_def)

lemma parseError_invalid_metadata:
  \<open>parseError \<lparr>StatusCode = 400, Body = Inr ''{"code":400,"msg":"invalid metadata"}''\<rparr> 201
      (Text ''creating new identity provider'') =
    API \<lparr>Op = Text ''creating new identity provider'', Expected = 201, Code = 400,
         Message = ''invalid metadata'', ErrorID = []\<rparr>\<close>
  by code_simp

lemma parseError_other_code:
  \<open>parseError \<lparr>StatusCode = 400, Body = Inr ''{"code":422,"msg":"x"}''\<rparr> 201
      (Text ''creating new identity provider'') =
    API \<lparr>Op = Text ''creating new identity provider'', Expected = 201, Code = 422,
         Message = ''x'', ErrorID = []\<rparr>\<close>
  by code_simp

theorem unexpected_status_error_witness:
  \<open>CreateIdentityProvider_request exampleLibrary
      (exampleClient (answering 400 ''{"code":400,"msg":"invalid metadata"}'')) zeroRequest exampleStore =
     Inr (examplePost,
          exampleStore @ [Header_Add ''Content-Type'' ''application/json'' (exampleStore ! 0)]) \<and>
   Do (exampleClient (answering 400 ''{"code":400,"msg":"invalid metadata"}'')) examplePost
       (exampleStore @ [Header_Add ''Content-Type'' ''application/json'' (exampleStore ! 0)]) =
     (Inr \<lparr>StatusCode = 400, Body = Inr ''{"code":400,"msg":"invalid metadata"}''\<rparr>,
      exampleStore @ [Header_Add ''Content-Type'' ''application/json'' (exampleStore ! 0)]) \<and>
   fst (client_CreateIdentityProvider exampleLibrary
      (exampleClient (answering 400 ''{"code":400,"msg":"invalid metadata"}'')) zeroRequest exampleStore) =
     Inl (API \<lparr>Op = Text ''creating new identity provider'', Expected = 201, Code = 400,
               Message = ''invalid metadata'', ErrorID = []\<rparr>)\<close>
  using unexpected_status_error
      [where lib = exampleLibrary
         and c = \<open>exampleClient (answering 400 ''{"code":400,"msg":"invalid metadata"}'')\<close>
         and template = zeroRequest and st = exampleStore and req = examplePost
         and ?st1.0 = "exampleStore @ [Header_Add ''Content-Type'' ''application/json'' (exampleStore ! 0)]"
         and ?st2.0 = "exampleStore @ [Header_Add ''Content-Type'' ''application/json'' (exampleStore ! 0)]"
         and res = \<open>\<lparr>StatusCode = 400, Body = Inr ''{"code":400,"msg":"invalid metadata"}''\<rparr>\<close>]
    example_Create_request example_Create_answer parseError_invalid_metadata
  by simp

text \<open>
  Claim C3 as stated fails for the code of the error: with the status 400 and the body
  \<open>{"code":422,"msg":"x"}\<close> the error of Create carries the code 422 of the payload, not the
  status 400 of the response.
\<close>

theorem payload_code_counterexample:
  \<open>fst (client_CreateIdentityProvider exampleLibrary
      (exampleClient (answering 400 ''{"code":422,"msg":"x"}'')) zeroRequest exampleStore) =
     Inl (API \<lparr>Op = Text ''creating new identity provider'', Expected = 201, Code = 422,
               Message = ''x'', ErrorID = []\<rparr>) \<and>
   fst (Do (exampleClient (answering 400 ''{"code":422,"msg":"x"}'')) examplePost
       (exampleStore @ [Header_Add ''Content-Type'' ''application/json'' (exampleStore ! 0)])) =
     Inr \<lparr>StatusCode = 400, Body = Inr ''{"code":422,"msg":"x"}''\<rparr>\<close>
  by (simp add: client_CreateIdentityProvider_def example_Create_request example_Create_answer
      parseError_other_code)

section \<open>Validation of the attribute mapping\<close>

lemma namesDiagnostics_positions:
  "namesDiagnostics key i names =
     map (\<lambda>j. \<lparr>Severity = diag_Error,
                Summary = Sprintf ''Attribute mapping name under %q.names at position %v is empty''
                            [ArgString key, ArgInt (int (i + j))],
                Detail = Text ''''\<rparr>)
       (filter (\<lambda>j. names ! j = '''') [0..<length names])"
proof (induction names arbitrary: i)
  case Nil
  show ?case by simp
next
  case (Cons name names)
  have u: "[0..<length (name # names)] = 0 # map Suc [0..<length names]"
    unfolding map_Suc_upt by (simp add: upt_conv_Cons del: upt_Suc)
  show ?case
    unfolding u by (simp add: Cons.IH filter_map comp_def)
qed

lemma length_namesDiagnostics:
  "length (namesDiagnostics key i names) = count_list names ''''"
  by (induction names arbitrary: i) simp_all

lemma validate_decoded:
  "Unmarshal_AttributeMapping v zeroAttributeMapping = Inr mapping \<Longrightarrow>
     attributeMappingValidateDiagFunc v = concat (map keyDiagnostics (Keys mapping))"
  by (simp add: attributeMappingValidateDiagFunc_def)

lemma validate_rejected:
  "Unmarshal_AttributeMapping v zeroAttributeMapping = Inl err \<Longrightarrow>
     attributeMappingValidateDiagFunc v =
       [\<lparr>Severity = diag_Error,
         Summary = Text ''attribute_mapping must be valid JSON'',
         Detail = Sprintf ''JSON parsing failed: %v'' [ArgText (JSONErrorText err)]\<rparr>]"
  by (simp add: attributeMappingValidateDiagFunc_def)

lemma keyDiagnostics_unset:
  "Name a = '''' \<Longrightarrow> Names a = [] \<Longrightarrow> Default a = None \<Longrightarrow>
     keyDiagnostics (k, a) =
       [\<lparr>Severity = diag_Error,
         Summary = Sprintf
           ''Attribute mapping key %q must have at least one property set: name, names or default''
           [ArgString k],
         Detail = Text ''''\<rparr>]"
  by (simp add: keyDiagnostics_def)

lemma keyDiagnostics_set:
  "\<not> (Name a = '''' \<and> Names a = [] \<and> Default a = None) \<Longrightarrow>
     keyDiagnostics (k, a) =
       map (\<lambda>j. \<lparr>Severity = diag_Error,
                  Summary = Sprintf ''Attribute mapping name under %q.names at position %v is empty''
                              [ArgString k, ArgInt (int j)],
                  Detail = Text ''''\<rparr>)
         (filter (\<lambda>j. Names a ! j = '''') [0..<length (Names a)])"
  by (auto simp: keyDiagnostics_def Let_def namesDiagnostics_positions)

lemma length_keyDiagnostics:
  "length (keyDiagnostics (k, a)) =
     (if Name a = '''' \<and> Names a = [] \<and> Default a = None then 1 else count_list (Names a) '''')"
  by (auto simp: keyDiagnostics_def Let_def length_namesDiagnostics)

text \<open>
  Claim C5. Let the value decode to a mapping. The diagnostics of the validator are those of
  all keys of the mapping, one key after the other. A key with no name, no names and no
  default has exactly one error diagnostic, which names the key. Any other key has exactly
  one error diagnostic for each empty entry of its names, which names the key and the
  position of the entry, and no other diagnostic. So the number of diagnostics is the number
  of keys with nothing set plus the number of empty entries of all lists of names. A value
  that does not decode has the single diagnostic that the value must be valid JSON.
\<close>

theorem attribute_mapping_diagnostics:
  "(\<forall>mapping. Unmarshal_AttributeMapping v zeroAttributeMapping = Inr mapping \<longrightarrow>
      attributeMappingValidateDiagFunc v = concat (map keyDiagnostics (Keys mapping)) \<and>
      length (attributeMappingValidateDiagFunc v) =
        sum_list (map (\<lambda>kv. if Name (snd kv) = '''' \<and> Names (snd kv) = [] \<and> Default (snd kv) = None
                              then 1 else count_list (Names (snd kv)) '''') (Keys mapping)) \<and>
      (\<forall>kv \<in> set (Keys mapping).
         keyDiagnostics kv =
           (if Name (snd kv) = '''' \<and> Names (snd kv) = [] \<and> Default (snd kv) = None
            then [\<lparr>Severity = diag_Error,
                   Summary = Sprintf
                     ''Attribute mapping key %q must have at least one property set: name, names or default''
                     [ArgString (fst kv)],
                   Detail = Text ''''\<rparr>]
            else map (\<lambda>j. \<lparr>Severity = diag_Error,
                             Summary = Sprintf
                               ''Attribute mapping name under %q.names at position %v is empty''
                               [ArgString (fst kv), ArgInt (int j)],
                             Detail = Text ''''\<rparr>)
                   (filter (\<lambda>j. Names (snd kv) ! j = '''') [0..<length (Names (snd kv))])))) \<and>
   (\<forall>err. Unmarshal_AttributeMapping v zeroAttributeMapping = Inl err \<longrightarrow>
      attributeMappingValidateDiagFunc v =
        [\<lparr>Severity = diag_Error,
          Summary = Text ''attribute_mapping must be valid JSON'',
          Detail = Sprintf ''JSON parsing failed: %v'' [ArgText (JSONErrorText err)]\<rparr>])"
proof -
  have k: "keyDiagnostics kv =
           (if Name (snd kv) = '''' \<and> Names (snd kv) = [] \<and> Default (snd kv) = None
            then [\<lparr>Severity = diag_Error,
                   Summary = Sprintf
                     ''Attribute mapping key %q must have at least one property set: name, names or default''
                     [ArgString (fst kv)],
                   Detail = Text ''''\<rparr>]
            else map (\<lambda>j. \<lparr>Severity = diag_Error,
                             Summary = Sprintf
                               ''Attribute mapping name under %q.names at position %v is empty''
                               [ArgString (fst kv), ArgInt (int j)],
                             Detail = Text ''''\<rparr>)
                   (filter (\<lambda>j. Names (snd kv) ! j = '''') [0..<length (Names (snd kv))]))" for kv
    using keyDiagnostics_unset [of "snd kv" "fst kv"] keyDiagnostics_set [of "snd kv" "fst kv"]
    by (cases "Name (snd kv) = '''' \<and> Names (snd kv) = [] \<and> Default (snd kv) = None") simp_all
  have l: "length (concat (map keyDiagnostics ks)) =
        sum_list (map (\<lambda>kv. if Name (snd kv) = '''' \<and> Names (snd kv) = [] \<and> Default (snd kv) = None
                              then 1 else count_list (Names (snd kv)) '''') ks)" for ks
  proof (induction ks)
    case Nil
    show ?case by simp
  next
    case (Cons kv ks)
    show ?case
      using Cons length_keyDiagnostics [of "fst kv" "snd kv"] by simp
  qed
  have a: "attributeMappingValidateDiagFunc v = concat (map keyDiagnostics (Keys mapping)) \<and>
      length (attributeMappingValidateDiagFunc v) =
        sum_list (map (\<lambda>kv. if Name (snd kv) = '''' \<and> Names (snd kv) = [] \<and> Default (snd kv) = None
                              then 1 else count_list (Names (snd kv)) '''') (Keys mapping))"
    if "Unmarshal_AttributeMapping v zeroAttributeMapping = Inr mapping" for mapping
    using validate_decoded [OF that] l [of "Keys mapping"] by simp
  show ?thesis
    using a k validate_rejected by blast
qed

lemma example_mapping_decodes:
  \<open>Unmarshal_AttributeMapping
      ''{"keys": {"a": {"names": ["x", "", ""], "default": null}, "b": {}, "c": {"name": "mail"}}}''
      zeroAttributeMapping =
    Inr \<lparr>Keys = [(''a'', \<lparr>Name = [], Names = [''x'', [], []], Default = None\<rparr>),
                 (''b'', \<lparr>Name = [], Names = [], Default = None\<rparr>),
                 (''c'', \<lparr>Name = ''mail'', Names = [], Default = None\<rparr>)]\<rparr>\<close>
  by code_simp

lemma example_not_JSON:
  "Unmarshal_AttributeMapping ''{'' zeroAttributeMapping = Inl SyntaxError"
  by code_simp

theorem attribute_mapping_diagnostics_witness:
  \<open>Unmarshal_AttributeMapping
      ''{"keys": {"a": {"names": ["x", "", ""], "default": null}, "b": {}, "c": {"name": "mail"}}}''
      zeroAttributeMapping =
    Inr \<lparr>Keys = [(''a'', \<lparr>Name = [], Names = [''x'', [], []], Default = None\<rparr>),
                 (''b'', \<lparr>Name = [], Names = [], Default = None\<rparr>),
                 (''c'', \<lparr>Name = ''mail'', Names = [], Default = None\<rparr>)]\<rparr> \<and>
   attributeMappingValidateDiagFunc
      ''{"keys": {"a": {"names": ["x", "", ""], "default": null}, "b": {}, "c": {"name": "mail"}}}'' =
     [\<lparr>Severity = diag_Error,
       Summary = Sprintf ''Attribute mapping name under %q.names at position %v is empty''
                   [ArgString ''a'', ArgInt 1],
       Detail = Text []\<rparr>,
      \<lparr>Severity = diag_Error,
       Summary = Sprintf ''Attribute mapping name under %q.names at position %v is empty''
                   [ArgString ''a'', ArgInt 2],
       Detail = Text []\<rparr>,
      \<lparr>Severity = diag_Error,
       Summary = Sprintf
         ''Attribute mapping key %q must have at least one property set: name, names or default''
         [ArgString ''b''],
       Detail = Text []\<rparr>] \<and>
   Unmarshal_AttributeMapping ''{'' zeroAttributeMapping = Inl SyntaxError \<and>
   attributeMappingValidateDiagFunc ''{'' =
     [\<lparr>Severity = diag_Error,
       Summary = Text ''attribute_mapping must be valid JSON'',
       Detail = Sprintf ''JSON parsing failed: %v'' [ArgText (JSONErrorText SyntaxError)]\<rparr>]\<close>
  using attribute_mapping_diagnostics
      [of \<open>''{"keys": {"a": {"names": ["x", "", ""], "default": null}, "b": {}, "c": {"name": "mail"}}}''\<close>]
    attribute_mapping_diagnostics [of "''{''"]
    example_mapping_decodes example_not_JSON
  by (simp add: keyDiagnostics_def)

section \<open>The empty attribute mapping\<close>

lemma Unmarshal_empty: "Unmarshal_AttributeMapping [] am = Inl SyntaxError"
proof -
  have "parseJSON [] = None" by code_simp
  then show ?thesis by (simp add: Unmarshal_AttributeMapping_def)
qed

text \<open>
  Claim C10. The validator of \<open>attribute_mapping\<close> decodes whatever text it is given: for
  the empty text it has the diagnostic that the value must be valid JSON, so the empty text
  does not pass. Create and Update, for a record whose planned \<open>attribute_mapping\<close> is
  empty, do not decode it: both build their request, with the attribute mapping left at
  its zero value.
\<close>

theorem empty_attribute_mapping:
  "attributeMappingValidateDiagFunc [] =
     [\<lparr>Severity = diag_Error,
       Summary = Text ''attribute_mapping must be valid JSON'',
       Detail = Sprintf ''JSON parsing failed: %v'' [ArgText (JSONErrorText SyntaxError)]\<rparr>] \<and>
   attributeMappingValidateDiagFunc [] \<noteq> [] \<and>
   (attribute_mapping (plan d) = [] \<longrightarrow>
      (case resourceIdentityProviderCreate_template d of
         Inr t \<Rightarrow> IdentityProviderRequest.AttributeMapping t = zeroAttributeMapping
       | Inl err \<Rightarrow> False) \<and>
      (case resourceIdentityProviderUpdate_template d of
         Inr t \<Rightarrow> IdentityProviderRequest.AttributeMapping t = zeroAttributeMapping
       | Inl err \<Rightarrow> False))"
proof -
  have v: "attributeMappingValidateDiagFunc [] =
     [\<lparr>Severity = diag_Error,
       Summary = Text ''attribute_mapping must be valid JSON'',
       Detail = Sprintf ''JSON parsing failed: %v'' [ArgText (JSONErrorText SyntaxError)]\<rparr>]"
    by (simp add: attributeMappingValidateDiagFunc_def Unmarshal_empty)
  have c: "case resourceIdentityProviderCreate_template d of
         Inr t \<Rightarrow> IdentityProviderRequest.AttributeMapping t = zeroAttributeMapping
       | Inl err \<Rightarrow> False" if "attribute_mapping (plan d) = []"
    using that
    by (simp add: resourceIdentityProviderCreate_template_def Let_def zeroRequest_def)
  have u: "case resourceIdentityProviderUpdate_template d of
         Inr t \<Rightarrow> IdentityProviderRequest.AttributeMapping t = zeroAttributeMapping
       | Inl err \<Rightarrow> False" if "attribute_mapping (plan d) = []"
    using that
    by (simp add: resourceIdentityProviderUpdate_template_def Let_def zeroRequest_def
        foldl_append_Domains)
  show ?thesis using v c u by simp
qed

theorem empty_attribute_mapping_witness:
  "attribute_mapping (plan exampleRecord) = [] \<and>
   attributeMappingValidateDiagFunc (attribute_mapping (plan exampleRecord)) \<noteq> [] \<and>
   resourceIdentityProviderCreate_template exampleRecord =
     Inr (zeroRequest\<lparr>Type := ''saml'',
            IdentityProviderRequest.MetadataURL := ''https://idp.example/saml'',
            IdentityProviderRequest.Domains := Some [''a.com'']\<rparr>) \<and>
   resourceIdentityProviderUpdate_template exampleRecord = Inr zeroRequest"
proof -
  have e: "attribute_mapping (plan exampleRecord) = []" by (simp add: exampleRecord_def)
  have c: "resourceIdentityProviderCreate_template exampleRecord =
     Inr (zeroRequest\<lparr>Type := ''saml'',
            IdentityProviderRequest.MetadataURL := ''https://idp.example/saml'',
            IdentityProviderRequest.Domains := Some [''a.com'']\<rparr>)"
    by (simp add: resourceIdentityProviderCreate_template_def exampleRecord_def GetOk_def
        Set_List_def append_Domains_def zeroRequest_def)
  have u: "resourceIdentityProviderUpdate_template exampleRecord = Inr zeroRequest"
    by (simp add: resourceIdentityProviderUpdate_template_def exampleRecord_def HasChange_def
        HasChange_domains_def)
  show ?thesis
    using empty_attribute_mapping [of exampleRecord] e c u by simp
qed

section \<open>Validation of the provider's address\<close>

text \<open>
  Claim C4 fails on the code for an address that does not parse. The validator appends its
  error diagnostic and goes on to read the scheme of the parsed address, which is nil: every
  address that is not empty and that \<open>url.ParseRequestURI\<close> rejects ends the validator in a
  panic, and no diagnostic is returned.
\<close>

theorem url_validator_panics:
  "rawURL \<noteq> [] \<Longrightarrow> ParseRequestURI rawURL = Inl err \<Longrightarrow>
     urlValidateDiagFunc ParseRequestURI rawURL =
       Inl (Panic ''invalid memory address or nil pointer dereference'')"
  by (simp add: urlValidateDiagFunc_def)

theorem url_validator_panics_witness:
  "''example.com'' \<noteq> [] \<and>
   (\<lambda>rawURL. Inl (Opaque ''invalid URI for request'')) ''example.com'' =
     (Inl (Opaque ''invalid URI for request'') :: error + URL) \<and>
   urlValidateDiagFunc (\<lambda>rawURL. Inl (Opaque ''invalid URI for request'')) ''example.com'' =
     Inl (Panic ''invalid memory address or nil pointer dereference'')"
  using url_validator_panics
      [of "''example.com''" "\<lambda>rawURL. Inl (Opaque ''invalid URI for request'')"
          "Opaque ''invalid URI for request''"]
  by simp

text \<open>
  The other parts of the claim, for an address that parses: the empty address has one error;
  a scheme other than \<open>http\<close> and \<open>https\<close> has the error that names the scheme; the scheme
  \<open>http\<close> with a host outside the pattern of the loopback hosts has the warning and no error.
\<close>

lemma url_validator_empty:
  "urlValidateDiagFunc ParseRequestURI [] =
     Inr [\<lparr>Severity = diag_Error, Summary = Text ''GoTrue URL is empty'', Detail = Text []\<rparr>]"
  by (simp add: urlValidateDiagFunc_def)

lemma url_validator_scheme:
  assumes "rawURL \<noteq> []" "ParseRequestURI rawURL = Inr u" "Scheme u \<noteq> ''http''" "Scheme u \<noteq> ''https''"
  shows "urlValidateDiagFunc ParseRequestURI rawURL =
           Inr [\<lparr>Severity = diag_Error,
                 Summary = Sprintf ''GoTrue URL is not HTTP(S): %q'' [ArgString (Scheme u)],
                 Detail = Text []\<rparr>]"
  using assms by (simp add: urlValidateDiagFunc_def)

lemma url_validator_http:
  assumes "rawURL \<noteq> []" "ParseRequestURI rawURL = Inr u" "Scheme u = ''http''"
  shows "urlValidateDiagFunc ParseRequestURI rawURL =
           Inr (if MatchString localhostPattern (Host u) then []
                else [\<lparr>Severity = diag_Warning,
                       Summary = Text ''GoTrue URL does not use HTTPS'',
                       Detail = Text ''Communication with GoTrue should occur over HTTPS whenever possible''\<rparr>])"
  using assms by (simp add: urlValidateDiagFunc_def)

lemma url_validator_https:
  assumes "rawURL \<noteq> []" "ParseRequestURI rawURL = Inr u" "Scheme u = ''https''"
  shows "urlValidateDiagFunc ParseRequestURI rawURL = Inr []"
  using assms by (simp add: urlValidateDiagFunc_def)

text \<open>
  The dots of the loopback pattern are not escaped, so a host such as \<open>127a0b0c1\<close> counts as
  a loopback host and gets no warning.
\<close>

lemma localhostPattern_examples:
  "MatchString localhostPattern ''localhost:9999''"
  "MatchString localhostPattern ''127.0.0.1''"
  "MatchString localhostPattern ''127a0b0c1''"
  "\<not> MatchString localhostPattern ''example.com''"
  by code_simp+

end
